theory Spec2Isabelle
  imports Complex_Main "HOL-Library.AList"
begin

section \<open>Python values, exceptions and string primitives\<close>

text \<open>
  Strings are Isabelle strings: a Python \<open>str\<close> whose code points are all below 256,
  one \<open>char\<close> per code point. A Python value that reaches the modelled code is a
  \<open>pyval\<close>; a \<open>dict\<close> is an association list with Python's update discipline
  (\<open>AList.update\<close>: overwrite in place, otherwise append) and \<open>map_of\<close> as lookup.
\<close>

datatype pyval =
    PStr string
  | PNum rat
  | PNaN
  | PNone
  | PList "pyval list"
  | PDict "(string \<times> pyval) list"
  | PObj "(string \<times> pyval) list"

text \<open>
  Exceptions raised by the modelled code. \<open>Raised m\<close> is an exception thrown by an
  external collaborator (pandas, scikit-learn, the text-generation backend), of which the
  code only ever reads \<open>str(e) = m\<close>.
\<close>

datatype exc =
    ValueError string
  | HTTPException nat string
  | TypeError string
  | AttributeError string
  | KeyError string
  | UnexpectedResponse pyval
  | MissingColumns "string list"
  | Raised string

type_synonym 'a result = "exc + 'a"

definition sq :: string where
  \<comment> \<open>the single quote\<close>
  "sq = [CHR 0x27]"

definition truthy :: "string option \<Rightarrow> bool" where
  \<comment> \<open>\<open>if s:\<close> for an \<open>Optional[str]\<close>: neither \<open>None\<close> nor the empty string\<close>
  "truthy s = (case s of None \<Rightarrow> False | Some t \<Rightarrow> t \<noteq> [])"

definition startswith :: "string \<Rightarrow> string \<Rightarrow> bool" where
  "startswith s p = (take (length p) s = p)"

fun py_contains :: "string \<Rightarrow> string \<Rightarrow> bool" where
  \<comment> \<open>\<open>needle in hay\<close> on two strings\<close>
  "py_contains needle [] = (needle = [])"
| "py_contains needle (c # cs) = (startswith (c # cs) needle \<or> py_contains needle cs)"

definition py_isspace :: "char \<Rightarrow> bool" where
  \<comment> \<open>\<open>str.isspace\<close>, which is also the class \<open>\s\<close> of \<open>re\<close> on \<open>str\<close> patterns\<close>
  "py_isspace c = (of_char c \<in> {9, 10, 11, 12, 13, 28, 29, 30, 31, 32, 133, 160 :: nat})"

definition py_strip :: "string \<Rightarrow> string" where
  "py_strip s = rev (dropWhile py_isspace (rev (dropWhile py_isspace s)))"

definition py_lower_char :: "char \<Rightarrow> char" where
  "py_lower_char c =
     (let n = (of_char c :: nat)
      in if (65 \<le> n \<and> n \<le> 90) \<or> (192 \<le> n \<and> n \<le> 222 \<and> n \<noteq> 215)
         then char_of (n + 32) else c)"

definition py_lower :: "string \<Rightarrow> string" where
  "py_lower s = map py_lower_char s"

definition path_join :: "string \<Rightarrow> string \<Rightarrow> string" where
  \<comment> \<open>\<open>os.path.join\<close> (POSIX) on two components\<close>
  "path_join a b =
     (if startswith b ''/'' then b
      else if a = [] \<or> last a = CHR ''/'' then a @ b
      else a @ ''/'' @ b)"

section \<open>Dataset resolution in the API routes\<close>

text \<open>
  The file system is seen through \<open>os.path.exists\<close> only: the set of existing paths.
  Each endpoint is modelled from its entry up to and including the existence checks of
  the data source. A \<open>_body\<close> definition is the code inside the endpoint's \<open>try\<close>: the
  source chosen, or the exception raised there. The endpoint itself adds the outer
  handler \<open>except Exception as e: raise HTTPException(status_code=500,
  detail=f"<prefix>: {str(e)}")\<close>, so its value is the source chosen or the exception
  the caller of the endpoint receives for a failure at this point. \<open>str\<close> of a
  \<open>ValueError\<close> is its message, \<open>str\<close> of an \<open>HTTPException\<close> is
  \<open>"<status_code>: <detail>"\<close>.
\<close>

datatype source = FromPath string | FromUpload

datatype route_exc = RValueError string | RHTTPException nat string

function show_nat :: "nat \<Rightarrow> string" where
  \<comment> \<open>the decimal digits of a number\<close>
  "show_nat n =
     (if n < 10 then [''0123456789'' ! n]
      else show_nat (n div 10) @ [''0123456789'' ! (n mod 10)])"
  by pat_completeness auto
termination
  by (relation "measure id") auto

declare show_nat.simps [simp del]

definition str_route_exc :: "route_exc \<Rightarrow> string" where
  "str_route_exc e =
     (case e of
        RValueError m \<Rightarrow> m
      | RHTTPException status_code detail \<Rightarrow> show_nat status_code @ '': '' @ detail)"

definition reraise_500 :: "string \<Rightarrow> route_exc + 'a \<Rightarrow> 'a result" where
  \<comment> \<open>the outer handler of an endpoint, with the prefix of its detail\<close>
  "reraise_500 prefix r =
     (case r of
        Inl e \<Rightarrow> Inl (HTTPException 500 (prefix @ '': '' @ str_route_exc e))
      | Inr v \<Rightarrow> Inr v)"

definition advanced_feature_engineering_body ::
  "string set \<Rightarrow> string option \<Rightarrow> bool \<Rightarrow> string \<Rightarrow> route_exc + source" where
  "advanced_feature_engineering_body fs dataset_id file folder =
     (if truthy dataset_id then
        (let csv_path = path_join folder (the dataset_id @ ''.csv'')
         in if csv_path \<notin> fs then
              (let alt_folder = (if folder = ''processed_data'' then ''original_data'' else ''processed_data'');
                   alt_path = path_join alt_folder (the dataset_id @ ''.csv'')
               in if alt_path \<notin> fs
                  then Inl (RValueError (''No file found for dataset_id='' @ the dataset_id @ '' in '' @ folder
                                         @ '' or '' @ alt_folder @ ''.''))
                  else Inr (FromPath alt_path))
            else Inr (FromPath csv_path))
      else if file then Inr FromUpload
      else Inl (RValueError ''No dataset provided. Please upload a file or provide a dataset_id.''))"

definition advanced_feature_engineering ::
  "string set \<Rightarrow> string option \<Rightarrow> bool \<Rightarrow> string \<Rightarrow> source result" where
  "advanced_feature_engineering fs dataset_id file folder =
     reraise_500 ''Feature engineering failed''
       (advanced_feature_engineering_body fs dataset_id file folder)"

definition evaluate_body :: "string set \<Rightarrow> string option \<Rightarrow> bool \<Rightarrow> route_exc + source" where
  "evaluate_body fs dataset_id file =
     (if truthy dataset_id then
        (let data_path = ''processed_data/'' @ the dataset_id @ ''.csv''
         in if data_path \<notin> fs
            then Inl (RHTTPException 400 (''No processed file for dataset_id='' @ sq @ the dataset_id @ sq @ ''.''))
            else Inr (FromPath data_path))
      else if \<not> file then Inl (RHTTPException 400 ''No file uploaded and no dataset_id provided.'')
      else Inr FromUpload)"

definition evaluate :: "string set \<Rightarrow> string option \<Rightarrow> bool \<Rightarrow> source result" where
  "evaluate fs dataset_id file =
     reraise_500 ''Evaluation failed'' (evaluate_body fs dataset_id file)"

definition train_models_body ::
  "string set \<Rightarrow> bool \<Rightarrow> string option \<Rightarrow> string option \<Rightarrow> string \<Rightarrow> route_exc + source" where
  "train_models_body fs file dataset_id feature_engineered_id dataset_source =
     (if dataset_source = ''original'' then
        (if file then Inr FromUpload
         else if truthy dataset_id then
           (let data_path = ''original_data/'' @ the dataset_id @ ''.csv''
            in if data_path \<notin> fs
               then Inl (RHTTPException 400 (''No original file found for dataset_id='' @ sq @ the dataset_id @ sq @ ''.''))
               else Inr (FromPath data_path))
         else Inl (RHTTPException 400 ''No file or dataset_id provided for original dataset.''))
      else if dataset_source = ''preprocessed'' then
        (if \<not> truthy dataset_id then Inl (RHTTPException 400 ''No dataset_id provided for preprocessed dataset.'')
         else
           (let data_path = ''processed_data/'' @ the dataset_id @ ''.csv''
            in if data_path \<notin> fs
               then Inl (RHTTPException 400 (''No processed file found for dataset_id='' @ sq @ the dataset_id @ sq @ ''.''))
               else Inr (FromPath data_path)))
      else if dataset_source = ''feature_engineered'' then
        (if \<not> truthy feature_engineered_id then Inl (RHTTPException 400 ''No feature_engineered_id provided.'')
         else
           (let data_path = ''feature_engineered_data/'' @ the feature_engineered_id @ ''.csv''
            in if data_path \<notin> fs
               then Inl (RHTTPException 400 (''No feature-engineered file for id='' @ sq @ the feature_engineered_id @ sq @ ''.''))
               else Inr (FromPath data_path)))
      else Inl (RHTTPException 400 (''Unknown dataset_source='' @ sq @ dataset_source @ sq @ ''.'')))"

definition train_models ::
  "string set \<Rightarrow> bool \<Rightarrow> string option \<Rightarrow> string option \<Rightarrow> string \<Rightarrow> source result" where
  "train_models fs file dataset_id feature_engineered_id dataset_source =
     reraise_500 ''Model training failed''
       (train_models_body fs file dataset_id feature_engineered_id dataset_source)"

section \<open>The Insight Generator (\<open>ai_insights_agent.py\<close>)\<close>

subsection \<open>Output cleaning\<close>

definition is_token_char :: "char \<Rightarrow> bool" where
  \<comment> \<open>the class \<open>[A-Z_]\<close>\<close>
  "is_token_char c = (let n = (of_char c :: nat) in (65 \<le> n \<and> n \<le> 90) \<or> n = 95)"

definition match_token :: "string \<Rightarrow> string option" where
  \<comment> \<open>a match of \<open>\[/?[A-Z_]+\]\<close> at the head of the input: what follows the match\<close>
  "match_token s =
     (case s of
        [] \<Rightarrow> None
      | c # r \<Rightarrow>
          if c \<noteq> CHR ''['' then None
          else
            (let r1 = (case r of [] \<Rightarrow> r | d # r' \<Rightarrow> if d = CHR ''/'' then r' else r);
                 body = takeWhile is_token_char r1;
                 rest = dropWhile is_token_char r1
             in if body = [] then None
                else (case rest of [] \<Rightarrow> None | e # t \<Rightarrow> if e = CHR '']'' then Some t else None)))"

lemma match_token_shorter: "match_token s = Some t \<Longrightarrow> length t < length s"
proof -
  have dw: "\<And>xs. length (dropWhile is_token_char xs) \<le> length xs"
    by (rule length_dropWhile_le)
  assume a: "match_token s = Some t"
  then obtain c r where s: "s = c # r" by (cases s) (auto simp: match_token_def)
  define r1 where "r1 = (case r of [] \<Rightarrow> r | d # r' \<Rightarrow> if d = CHR ''/'' then r' else r)"
  have r1: "length r1 \<le> length r" by (auto simp: r1_def split: list.splits)
  from a s have "\<exists>e. dropWhile is_token_char r1 = e # t"
    by (auto simp: match_token_def Let_def r1_def split: if_splits list.splits)
  then obtain e where "dropWhile is_token_char r1 = e # t" ..
  with dw[of r1] have "length t < length r1" by simp
  with r1 s show ?thesis by simp
qed

function sub_tokens :: "string \<Rightarrow> string" where
  \<comment> \<open>\<open>re.sub(r'\[/?[A-Z_]+\]', '', s)\<close>: leftmost matches, scanning on after each\<close>
  "sub_tokens [] = []"
| "sub_tokens (c # cs) =
     (case match_token (c # cs) of
        Some rest \<Rightarrow> sub_tokens rest
      | None \<Rightarrow> c # sub_tokens cs)"
  by pat_completeness auto
termination
  by (relation "measure length") (auto dest: match_token_shorter)

function sub_eos :: "string \<Rightarrow> string" where
  \<comment> \<open>\<open>re.sub(r'</s>', '', s)\<close>\<close>
  "sub_eos [] = []"
| "sub_eos (c # cs) =
     (if startswith (c # cs) ''</s>'' then sub_eos (drop 3 cs) else c # sub_eos cs)"
  by pat_completeness auto
termination
  by (relation "measure length") auto

function sub_spaces :: "string \<Rightarrow> string" where
  \<comment> \<open>\<open>re.sub(r'\s+', ' ', s)\<close>\<close>
  "sub_spaces [] = []"
| "sub_spaces (c # cs) =
     (if py_isspace c then CHR '' '' # sub_spaces (dropWhile py_isspace cs)
      else c # sub_spaces cs)"
  by pat_completeness auto
termination
  by (relation "measure length") (auto simp: length_dropWhile_le less_Suc_eq_le)

definition clean_response :: "string \<Rightarrow> string" where
  "clean_response raw_response = py_strip (sub_spaces (sub_eos (sub_tokens raw_response)))"

subsection \<open>Cache, backend and world\<close>

text \<open>
  The cache directory is a map from path to file content; a file either parses as JSON
  or does not. Reads, writes and removals of cache files are taken to succeed. The
  backend and every other collaborator act on an external state \<open>'w\<close> the code cannot
  inspect. The trace records each call that leaves the modelled code, in order.
\<close>

datatype fcontent = Garbage | Json pyval

datatype event =
    Chat string string
  | Insights string
  | EDA
  | Train
  | Retrieve string nat

record 'w world =
  ext :: 'w
  cache :: "string \<rightharpoonup> fcontent"
  trace :: "event list"

record 'w backend =
  ollama_list :: "'w \<Rightarrow> string option"
  ollama_chat :: "'w \<Rightarrow> string \<Rightarrow> string \<Rightarrow> (string + pyval) \<times> 'w"
  md5_hexdigest :: "string \<Rightarrow> string"

definition AVAILABLE_MODELS :: "string list" where
  "AVAILABLE_MODELS = [''mistral'', ''gemma2'', ''llama3.3'', ''llama2'', ''gpt-4'']"

definition CACHE_DIR :: string where
  "CACHE_DIR = ''ai_cache''"

definition get_cache_filename :: "'w backend \<Rightarrow> string \<Rightarrow> string \<Rightarrow> string" where
  "get_cache_filename be prompt model_choice =
     (let key = model_choice @ '':'' @ prompt;
          hash_key = md5_hexdigest be key
      in path_join CACHE_DIR (hash_key @ ''.json''))"

definition is_model_available :: "'w backend \<Rightarrow> 'w \<Rightarrow> string \<Rightarrow> bool" where
  \<comment> \<open>\<open>ollama_list\<close> is the stdout of \<open>ollama list\<close>, \<open>None\<close> when running it raises\<close>
  "is_model_available be x model_name =
     (case ollama_list be x of
        None \<Rightarrow> False
      | Some out \<Rightarrow> py_contains (py_lower model_name) (py_lower out))"

definition slice_to :: "string \<Rightarrow> int \<Rightarrow> string" where
  \<comment> \<open>\<open>s[:n]\<close>, a negative \<open>n\<close> counting from the end\<close>
  "slice_to s n = (if 0 \<le> n then take (nat n) s else take (length s - nat (- n)) s)"

definition build_prompt :: "string \<Rightarrow> string \<Rightarrow> int \<Rightarrow> bool \<Rightarrow> string" where
  "build_prompt eda_summary model_summary chunk_threshold enable_cot =
     (let combined_summary0 =
            ''EDA Summary:'' @ [CHR 0x0A] @ eda_summary @ [CHR 0x0A, CHR 0x0A]
            @ ''Model Training Summary:'' @ [CHR 0x0A] @ model_summary @ [CHR 0x0A, CHR 0x0A];
          combined_summary =
            (if int (length combined_summary0) > chunk_threshold
             then slice_to combined_summary0 chunk_threshold
                  @ [CHR 0x0A, CHR 0x0A] @ ''[TRUNCATED FOR LENGTH]'' @ [CHR 0x0A]
             else combined_summary0);
          cot_instruction =
            (if enable_cot
             then ''Also, please include your chain-of-thought in a section labeled '' @ sq
                  @ ''Chain-of-Thought'' @ sq @ ''. ''
             else [])
      in ''You are an AI assistant with context from an Exploratory Data Analysis (EDA) and a Model Training Summary. ''
         @ ''Use the information provided below to create structured, actionable insights in bullet points.''
         @ [CHR 0x0A, CHR 0x0A]
         @ combined_summary
         @ ''Outline:'' @ [CHR 0x0A] @ ''1) General Insights'' @ [CHR 0x0A] @ ''2) Model Performance''
         @ [CHR 0x0A] @ ''3) Recommendations'' @ [CHR 0x0A]
         @ cot_instruction
         @ ''Think step by step.'')"

definition read_cached :: "fcontent \<Rightarrow> string option" where
  \<comment> \<open>the \<open>try\<close> block that loads a cache file: the text it returns, or \<open>None\<close> when it
      falls through to generation (unreadable file, missing or non-string or blank entry)\<close>
  "read_cached fc =
     (case fc of
        Json (PDict d) \<Rightarrow>
          (case (case map_of d ''insights'' of None \<Rightarrow> PStr [] | Some v \<Rightarrow> v) of
             PStr s \<Rightarrow> if py_strip s \<noteq> [] then Some (py_strip s) else None
           | _ \<Rightarrow> None)
      | _ \<Rightarrow> None)"

definition chat :: "'w backend \<Rightarrow> 'w world \<Rightarrow> string \<Rightarrow> string \<Rightarrow> (string + pyval) \<times> 'w world" where
  \<comment> \<open>one \<open>ollama.chat(model=m, messages=[{"role": "user", "content": prompt}])\<close>\<close>
  "chat be w m prompt =
     (let (r, x) = ollama_chat be (ext w) m prompt
      in (r, w\<lparr>ext := x, trace := trace w @ [Chat m prompt]\<rparr>))"

definition chat_with_fallback ::
  "'w backend \<Rightarrow> 'w world \<Rightarrow> string \<Rightarrow> string \<Rightarrow> (pyval \<times> string) result \<times> 'w world" where
  \<comment> \<open>the generation call and its handlers: the response with the model that gave it\<close>
  "chat_with_fallback be w model_choice prompt =
     (case chat be w model_choice prompt of
        (Inr response, w1) \<Rightarrow> (Inr (response, model_choice), w1)
      | (Inl e, w1) \<Rightarrow>
          if py_contains ''requires more system memory'' e then
            (let fallback_model = ''mistral''
             in case chat be w1 fallback_model prompt of
                  (Inr response, w2) \<Rightarrow> (Inr (response, fallback_model), w2)
                | (Inl fallback_e, w2) \<Rightarrow> (Inl (Raised fallback_e), w2))
          else if py_lower model_choice = ''gpt-4'' then
            (case chat be w1 ''mistral'' prompt of
               (Inr response, w2) \<Rightarrow> (Inr (response, ''mistral''), w2)
             | (Inl fallback_e, w2) \<Rightarrow> (Inl (Raised fallback_e), w2))
          else (Inl (Raised e), w1))"

subsection \<open>Response normalisation\<close>

definition py_in :: "string \<Rightarrow> pyval \<Rightarrow> bool result" where
  \<comment> \<open>\<open>k in v\<close> for a string \<open>k\<close>\<close>
  "py_in k v =
     (case v of
        PDict d \<Rightarrow> Inr (map_of d k \<noteq> None)
      | PStr s \<Rightarrow> Inr (py_contains k s)
      | PList l \<Rightarrow> Inr (PStr k \<in> set l)
      | _ \<Rightarrow> Inl (TypeError ''argument is not iterable''))"

definition py_getitem :: "pyval \<Rightarrow> string \<Rightarrow> pyval result" where
  \<comment> \<open>\<open>v[k]\<close> for a string \<open>k\<close>\<close>
  "py_getitem v k =
     (case v of
        PDict d \<Rightarrow> (case map_of d k of None \<Rightarrow> Inl (KeyError k) | Some u \<Rightarrow> Inr u)
      | PStr s \<Rightarrow> Inl (TypeError ''string indices must be integers'')
      | PList l \<Rightarrow> Inl (TypeError ''list indices must be integers or slices'')
      | _ \<Rightarrow> Inl (TypeError ''object is not subscriptable''))"

definition py_getattr :: "pyval \<Rightarrow> string \<Rightarrow> pyval option" where
  \<comment> \<open>the attributes this code asks for (\<open>message\<close>, \<open>content\<close>) exist on objects only\<close>
  "py_getattr v k = (case v of PObj a \<Rightarrow> map_of a k | _ \<Rightarrow> None)"

definition extract_insights :: "pyval \<Rightarrow> pyval result" where
  "extract_insights response =
     (case response of
        PDict d \<Rightarrow>
          (if map_of d ''response'' \<noteq> None then py_getitem response ''response''
           else if map_of d ''message'' \<noteq> None then
             (case py_in ''content'' (the (map_of d ''message'')) of
                Inl e \<Rightarrow> Inl e
              | Inr True \<Rightarrow> py_getitem (the (map_of d ''message'')) ''content''
              | Inr False \<Rightarrow> Inl (UnexpectedResponse response))
           else Inl (UnexpectedResponse response))
      | PStr s \<Rightarrow> Inr (PStr (clean_response s))
      | _ \<Rightarrow>
          (case py_getattr response ''message'' of
             None \<Rightarrow> Inl (UnexpectedResponse response)
           | Some m \<Rightarrow>
               (case py_getattr m ''content'' of
                  None \<Rightarrow> Inl (UnexpectedResponse response)
                | Some c \<Rightarrow> Inr c)))"

definition strip_val :: "pyval \<Rightarrow> string result" where
  \<comment> \<open>\<open>insights.strip()\<close>\<close>
  "strip_val v = (case v of PStr s \<Rightarrow> Inr (py_strip s) | _ \<Rightarrow> Inl (AttributeError ''strip''))"

subsection \<open>\<open>generate_ai_insights\<close>\<close>

definition generate_ai_insights ::
  "'w backend \<Rightarrow> 'w world \<Rightarrow> string \<Rightarrow> string \<Rightarrow> string \<Rightarrow> int \<Rightarrow> bool \<Rightarrow> bool \<Rightarrow> int \<Rightarrow> bool
     \<Rightarrow> string result \<times> 'w world" where
  "generate_ai_insights be w0 eda_summary model_summary model_choice chunk_threshold
       force_regenerate enable_cot max_tokens clear_cache =
     (let w = w0\<lparr>trace := trace w0 @ [Insights model_choice]\<rparr> in
      if model_choice \<notin> set AVAILABLE_MODELS then
        (Inl (ValueError (''Invalid model '' @ sq @ model_choice @ sq @ ''. Choose from ''
                          @ ''['' @ sq @ ''mistral'' @ sq @ '', '' @ sq @ ''gemma2'' @ sq @ '', ''
                          @ sq @ ''llama3.3'' @ sq @ '', '' @ sq @ ''llama2'' @ sq @ '', ''
                          @ sq @ ''gpt-4'' @ sq @ ''].'')), w)
      else if \<not> is_model_available be (ext w) model_choice then
        (Inl (ValueError (''Selected model '' @ sq @ model_choice @ sq @ '' is not available in Ollama.'')), w)
      else
        (let prompt = build_prompt eda_summary model_summary chunk_threshold enable_cot;
             cache_file = get_cache_filename be prompt model_choice;
             w1 = (if (force_regenerate \<or> clear_cache) \<and> cache w cache_file \<noteq> None
                   then w\<lparr>cache := (cache w)(cache_file := None)\<rparr> else w);
             hit = (if \<not> force_regenerate \<and> cache w1 cache_file \<noteq> None
                    then read_cached (the (cache w1 cache_file)) else None)
         in case hit of
              Some cached_insights \<Rightarrow> (Inr cached_insights, w1)
            | None \<Rightarrow>
                (case chat_with_fallback be w1 model_choice prompt of
                   (Inl e, w2) \<Rightarrow> (Inl e, w2)
                 | (Inr (response, effective_model), w2) \<Rightarrow>
                     (case extract_insights response of
                        Inl e \<Rightarrow> (Inl e, w2)
                      | Inr v \<Rightarrow>
                          (case strip_val v of
                             Inl e \<Rightarrow> (Inl e, w2)
                           | Inr insights \<Rightarrow>
                               if insights \<noteq> [] then
                                 (Inr insights,
                                  w2\<lparr>cache := (cache w2)(cache_file \<mapsto>
                                         Json (PDict [(''insights'', PStr insights)]))\<rparr>)
                               else (Inr insights, w2))))))"

section \<open>The Orchestrator (\<open>orchestrator_agent.py\<close>)\<close>

text \<open>
  A row of training results is a dict of strings and floats; a float is a rational or
  NaN. The decision is a dict too. The EDA stage, the training stage and context
  retrieval are collaborators on the external state; \<open>Inl m\<close> is an exception whose
  \<open>str\<close> is \<open>m\<close>. \<open>fmt\<close> is Python's formatting of a value inside an f-string.
\<close>

datatype cell = CStr string | CNum rat | CNaN

type_synonym row = "(string \<times> cell) list"

datatype dval = DStr string | DRows "row list"

type_synonym decision = "(string \<times> dval) list"

record train_output =
  results :: "row list"
  trained_models :: "(string \<times> string) list"

record ('d, 'w) stages =
  generate_eda :: "'w \<Rightarrow> 'd \<Rightarrow> (string + string) \<times> 'w"
  train_and_evaluate_models :: "'w \<Rightarrow> 'd \<Rightarrow> string \<Rightarrow> (string + train_output) \<times> 'w"
  retrieve_context :: "'w \<Rightarrow> string \<Rightarrow> nat \<Rightarrow> (string + string) \<times> 'w"
  fmt :: "cell \<Rightarrow> string"

record OrchestratorAgent =
  eda_quality_threshold :: rat
  model_performance_threshold :: rat

definition init :: OrchestratorAgent where
  "init = \<lparr>eda_quality_threshold = 8 / 10, model_performance_threshold = 75 / 100\<rparr>"

fun str_lt :: "string \<Rightarrow> string \<Rightarrow> bool" where
  "str_lt [] [] = False"
| "str_lt [] (y # ys) = True"
| "str_lt (x # xs) [] = False"
| "str_lt (x # xs) (y # ys) =
     ((of_char x :: nat) < of_char y \<or> (x = y \<and> str_lt xs ys))"

fun cell_lt :: "cell \<Rightarrow> cell \<Rightarrow> bool result" where
  \<comment> \<open>\<open>a < b\<close>; \<open>a > b\<close> is \<open>cell_lt b a\<close>\<close>
  "cell_lt (CNum a) (CNum b) = Inr (a < b)"
| "cell_lt (CStr a) (CStr b) = Inr (str_lt a b)"
| "cell_lt (CStr a) _ = Inl (TypeError ''not supported between instances'')"
| "cell_lt _ (CStr b) = Inl (TypeError ''not supported between instances'')"
| "cell_lt _ _ = Inr False"

fun max_from :: "cell \<Rightarrow> cell list \<Rightarrow> cell result" where
  "max_from m [] = Inr m"
| "max_from m (x # xs) =
     (case cell_lt m x of
        Inl e \<Rightarrow> Inl e
      | Inr b \<Rightarrow> max_from (if b then x else m) xs)"

definition py_max :: "cell list \<Rightarrow> cell \<Rightarrow> cell result" where
  \<comment> \<open>\<open>max(xs, default=d)\<close>\<close>
  "py_max xs d = (case xs of [] \<Rightarrow> Inr d | x # rest \<Rightarrow> max_from x rest)"

definition row_get :: "row \<Rightarrow> string \<Rightarrow> cell \<Rightarrow> cell" where
  \<comment> \<open>\<open>row.get(k, d)\<close>\<close>
  "row_get r k d = (case map_of r k of None \<Rightarrow> d | Some v \<Rightarrow> v)"

definition best_r2_of :: "row list \<Rightarrow> cell result" where
  \<comment> \<open>\<open>max((row.get("R2", 0) for row in results), default=0.0)\<close>\<close>
  "best_r2_of rs = py_max (map (\<lambda>row. row_get row ''R2'' (CNum 0)) rs) (CNum 0)"

text \<open>
  For stating what \<open>best_r2_of\<close> yields: whether a cell is a float, and the numbers
  (the floats that are not NaN) of a list of cells, in order.
\<close>

definition is_float :: "cell \<Rightarrow> bool" where
  "is_float c = (case c of CStr s \<Rightarrow> False | CNum q \<Rightarrow> True | CNaN \<Rightarrow> True)"

fun nums :: "cell list \<Rightarrow> rat list" where
  "nums [] = []"
| "nums (CNum q # cs) = q # nums cs"
| "nums (c # cs) = nums cs"

definition call_eda :: "('d, 'w) stages \<Rightarrow> 'w world \<Rightarrow> 'd \<Rightarrow> (string + string) \<times> 'w world" where
  "call_eda st w data =
     (let (r, x) = generate_eda st (ext w) data
      in (r, w\<lparr>ext := x, trace := trace w @ [EDA]\<rparr>))"

definition call_train ::
  "('d, 'w) stages \<Rightarrow> 'w world \<Rightarrow> 'd \<Rightarrow> string \<Rightarrow> (string + train_output) \<times> 'w world" where
  "call_train st w data target_col =
     (let (r, x) = train_and_evaluate_models st (ext w) data target_col
      in (r, w\<lparr>ext := x, trace := trace w @ [Train]\<rparr>))"

definition call_retrieve ::
  "('d, 'w) stages \<Rightarrow> 'w world \<Rightarrow> string \<Rightarrow> nat \<Rightarrow> (string + string) \<times> 'w world" where
  "call_retrieve st w query top_k =
     (let (r, x) = retrieve_context st (ext w) query top_k
      in (r, w\<lparr>ext := x, trace := trace w @ [Retrieve query top_k]\<rparr>))"

definition augment ::
  "'w backend \<Rightarrow> ('d, 'w) stages \<Rightarrow> 'w world \<Rightarrow> string \<Rightarrow> string \<times> 'w world" where
  \<comment> \<open>the \<open>try\<close>/\<open>except\<close> around retrieval and insight generation: the value stored
      under \<open>ai_insights\<close>\<close>
  "augment be st w report =
     (case call_retrieve st w ''Ways to improve regression R2 score'' 2 of
        (Inl e, w1) \<Rightarrow> (''No AI insights available due to an error.'', w1)
      | (Inr domain_context, w1) \<Rightarrow>
          (let eda_summary = report @ [CHR 0x0A, CHR 0x0A] @ ''Additional Domain Context:''
                             @ [CHR 0x0A] @ domain_context;
               model_summary = ''Model training results indicate low R2. Consider adjusting hyperparameters and exploring alternative algorithms.''
           in case generate_ai_insights be w1 eda_summary model_summary ''gpt-4'' 1500 True True 512 False of
                (Inl ai_e, w2) \<Rightarrow> (''No AI insights available due to an error.'', w2)
              | (Inr insights, w2) \<Rightarrow> (insights, w2)))"

definition decide_next_steps ::
  "'w backend \<Rightarrow> ('d, 'w) stages \<Rightarrow> OrchestratorAgent \<Rightarrow> 'w world \<Rightarrow> 'd \<Rightarrow> string
     \<Rightarrow> decision result \<times> 'w world" where
  "decide_next_steps be st self w data target_col =
     (case call_eda st w data of
        (Inl e, w1) \<Rightarrow> (Inr [(''error'', DStr ''EDA failed''), (''details'', DStr e)], w1)
      | (Inr report, w1) \<Rightarrow>
          (let decision = AList.update ''eda_report'' (DStr report) [];
               data_quality = (85 / 100 :: rat)
           in if data_quality < eda_quality_threshold self then
                (Inr (AList.update ''reason''
                        (DStr (''Data quality score ('' @ fmt st (CNum data_quality) @ '') < threshold (''
                               @ fmt st (CNum (eda_quality_threshold self)) @ '').''))
                        (AList.update ''next_action'' (DStr ''Perform advanced feature engineering.'') decision)),
                 w1)
              else
                (case call_train st w1 data target_col of
                   (Inl e, w2) \<Rightarrow>
                     (Inr [(''error'', DStr ''Model training failed''), (''details'', DStr e)], w2)
                 | (Inr train_out, w2) \<Rightarrow>
                     (let decision = AList.update ''model_results'' (DRows (results train_out)) decision
                      in case best_r2_of (results train_out) of
                           Inl e \<Rightarrow> (Inl e, w2)
                         | Inr best_r2 \<Rightarrow>
                             (case cell_lt best_r2 (CNum (model_performance_threshold self)) of
                                Inl e \<Rightarrow> (Inl e, w2)
                              | Inr True \<Rightarrow>
                                  (let decision = AList.update ''next_action''
                                         (DStr ''Tune hyperparameters or try alternative models.'') decision;
                                       decision = AList.update ''reason''
                                         (DStr (''Best R2 ('' @ fmt st best_r2 @ '') < threshold (''
                                                @ fmt st (CNum (model_performance_threshold self)) @ '').''))
                                         decision;
                                       (ai, w3) = augment be st w2 report
                                   in (Inr (AList.update ''ai_insights'' (DStr ai) decision), w3))
                              | Inr False \<Rightarrow>
                                  (let decision = AList.update ''next_action''
                                         (DStr ''Proceed to forecasting or deployment.'') decision;
                                       decision = AList.update ''reason''
                                         (DStr (''Data quality & model performance are satisfactory (R2=''
                                                @ fmt st best_r2 @ '').''))
                                         decision
                                   in (Inr decision, w2)))))))"

section \<open>Model evaluation (\<open>evaluation_agent.py\<close>)\<close>

text \<open>
  A DataFrame is its columns from left to right, each a label with its values; labels
  may repeat. DataFrames are objects: the store holds them by address, \<open>copy\<close> and column
  selection allocate a new object, and \<open>drop(..., inplace=True)\<close> overwrites the object
  it is called on. A reference handed to \<open>evaluate_model\<close> is an address below the
  length of the store.

  The estimator comes from \<open>joblib.load\<close>; \<open>predict\<close> may raise and may write to the
  frame it is given. The metric functions are scikit-learn's. \<open>list(set ...)\<close> has no
  fixed order in Python; the model lists such a set in order of first occurrence.
\<close>

type_synonym 'v frame = "(string \<times> 'v list) list"

type_synonym 'v store = "'v frame list"

datatype estimator_kind = Classifier | Regressor | Unknown

record ('v, 'p) estimator =
  training_columns :: "string list option"
  predict :: "'v frame \<Rightarrow> (string + 'p list) \<times> 'v frame"
  kind :: estimator_kind

record ('v, 'p, 'm) sklearn =
  joblib_load :: "string \<Rightarrow> string + ('v, 'p) estimator"
  accuracy_score :: "'v list list \<Rightarrow> 'p list \<Rightarrow> string + 'm"
  f1_score :: "'v list list \<Rightarrow> 'p list \<Rightarrow> string + 'm"
  rmse :: "'v list list \<Rightarrow> 'p list \<Rightarrow> string + 'm"
  r2_score :: "'v list list \<Rightarrow> 'p list \<Rightarrow> string + 'm"

datatype info = IStr string | ICols "string list"

datatype ('v, 'p, 'm) rval =
    RPredictions "'p list"
  | RColumnInfo "(string \<times> info) list"
  | RMetrics "(string \<times> 'm) list"
  | RActual "'v list"

definition columns :: "'v frame \<Rightarrow> string list" where
  "columns f = map fst f"

definition alloc :: "'v store \<Rightarrow> 'v frame \<Rightarrow> 'v store \<times> nat" where
  "alloc h f = (h @ [f], length h)"

definition drop_columns :: "string list \<Rightarrow> 'v frame \<Rightarrow> 'v frame" where
  \<comment> \<open>\<open>df.drop(columns=cs)\<close> for labels that are all present\<close>
  "drop_columns cs f = filter (\<lambda>c. fst c \<notin> set cs) f"

definition select_columns :: "string list \<Rightarrow> 'v frame \<Rightarrow> 'v frame" where
  \<comment> \<open>\<open>df[cs]\<close> for labels that are all present\<close>
  "select_columns cs f = concat (map (\<lambda>l. filter (\<lambda>c. fst c = l) f) cs)"

definition separate_target ::
  "'v store \<Rightarrow> nat \<Rightarrow> string option \<Rightarrow> 'v list list option \<times> (string \<times> info) list \<times> 'v store" where
  \<comment> \<open>the \<open>if target_col:\<close> block on the copy \<open>df\<close>: \<open>y_true\<close>, \<open>col_info\<close>, the store\<close>
  "separate_target h df target_col =
     (if truthy target_col then
        (if the target_col \<in> set (columns (h ! df)) then
           (Some (map snd (filter (\<lambda>c. fst c = the target_col) (h ! df))),
            [],
            h[df := drop_columns [the target_col] (h ! df)])
         else (None, AList.update ''missing_target'' (IStr (the target_col)) [], h))
      else (None, [], h))"

definition align_columns ::
  "('v, 'p) estimator \<Rightarrow> 'v store \<Rightarrow> nat \<Rightarrow> (string \<times> info) list
     \<Rightarrow> (nat \<times> (string \<times> info) list) result \<times> 'v store" where
  \<comment> \<open>the \<open>if hasattr(model, "_training_columns"):\<close> block: the frame to predict on
      and \<open>col_info\<close>\<close>
  "align_columns model h df col_info =
     (case training_columns model of
        None \<Rightarrow> (Inr (df, col_info), h)
      | Some tcs \<Rightarrow>
          (let extra_cols = filter (\<lambda>c. c \<notin> set tcs) (remdups (columns (h ! df)));
               missing_cols = filter (\<lambda>c. c \<notin> set (columns (h ! df))) (remdups tcs);
               (col_info1, h1) =
                 (if extra_cols \<noteq> []
                  then (AList.update ''extra_columns_dropped'' (ICols extra_cols) col_info,
                        h[df := drop_columns extra_cols (h ! df)])
                  else (col_info, h))
           in if missing_cols \<noteq> [] then (Inl (MissingColumns missing_cols), h1)
              else
                (let (h2, df2) = alloc h1 (select_columns tcs (h1 ! df))
                 in (Inr (df2, AList.update ''used_columns'' (ICols tcs) col_info1), h2))))"

definition compute_metrics ::
  "('v, 'p, 'm) sklearn \<Rightarrow> estimator_kind \<Rightarrow> 'v list list \<Rightarrow> 'p list \<Rightarrow> (string \<times> 'm) list" where
  "compute_metrics lib k y_true predictions =
     (case k of
        Classifier \<Rightarrow>
          (case accuracy_score lib y_true predictions of
             Inl e \<Rightarrow> []
           | Inr a \<Rightarrow>
               (case f1_score lib y_true predictions of
                  Inl e \<Rightarrow> AList.update ''Accuracy'' a []
                | Inr f \<Rightarrow> AList.update ''F1'' f (AList.update ''Accuracy'' a [])))
      | Regressor \<Rightarrow>
          (case rmse lib y_true predictions of
             Inl e \<Rightarrow> []
           | Inr a \<Rightarrow>
               (case r2_score lib y_true predictions of
                  Inl e \<Rightarrow> AList.update ''RMSE'' a []
                | Inr f \<Rightarrow> AList.update ''R2'' f (AList.update ''RMSE'' a [])))
      | Unknown \<Rightarrow> [])"

definition tolist :: "'v list list \<Rightarrow> 'v list result" where
  \<comment> \<open>\<open>y_true.tolist()\<close>: a repeated target label makes \<open>y_true\<close> a DataFrame, which has
      no such method\<close>
  "tolist y_true = (case y_true of [ys] \<Rightarrow> Inr ys | _ \<Rightarrow> Inl (AttributeError ''tolist''))"

definition evaluate_model ::
  "('v, 'p, 'm) sklearn \<Rightarrow> 'v store \<Rightarrow> nat \<Rightarrow> string \<Rightarrow> string option
     \<Rightarrow> (string \<times> ('v, 'p, 'm) rval) list result \<times> 'v store" where
  "evaluate_model lib h new_df model_path target_col =
     (case joblib_load lib model_path of
        Inl e \<Rightarrow> (Inl (Raised e), h)
      | Inr model \<Rightarrow>
          (let (h1, df) = alloc h (h ! new_df);
               (y_true, col_info, h2) = separate_target h1 df target_col
           in case align_columns model h2 df col_info of
                (Inl e, h3) \<Rightarrow> (Inl e, h3)
              | (Inr (df3, col_info3), h3) \<Rightarrow>
                  (let (r, f) = predict model (h3 ! df3);
                       h4 = h3[df3 := f]
                   in case r of
                        Inl e \<Rightarrow> (Inl (Raised e), h4)
                      | Inr predictions \<Rightarrow>
                          (let res = AList.update ''column_info'' (RColumnInfo col_info3)
                                       (AList.update ''predictions'' (RPredictions predictions) [])
                           in case y_true of
                                None \<Rightarrow> (Inr res, h4)
                              | Some ys \<Rightarrow>
                                  (let metrics = compute_metrics lib (kind model) ys predictions;
                                       res = AList.update ''metrics'' (RMetrics metrics) res
                                   in case tolist ys of
                                        Inl e \<Rightarrow> (Inl e, h4)
                                      | Inr actual \<Rightarrow>
                                          (Inr (AList.update ''actual'' (RActual actual) res), h4))))))"

section \<open>Test doubles\<close>

text \<open>
  Stand-ins for the collaborators, after the dummies of the repository's tests: a backend
  that answers each chat call with the next entry of a script (the external state), with
  \<open>mistral\<close>, \<open>llama2\<close> and \<open>gpt-4\<close> installed and the key itself as its hash; stages that
  return fixed outcomes; training outputs with one model and with two; an estimator and
  a scikit-learn whose metrics are constant.
\<close>

definition scripted_chat ::
  "(string + pyval) list \<Rightarrow> string \<Rightarrow> string \<Rightarrow> (string + pyval) \<times> (string + pyval) list" where
  "scripted_chat x m prompt =
     (case x of [] \<Rightarrow> (Inl ''connection refused'', []) | r # rs \<Rightarrow> (r, rs))"

definition scripted_backend :: "(string + pyval) list backend" where
  "scripted_backend =
     \<lparr>ollama_list = (\<lambda>x. Some ''NAME ID SIZE mistral:latest llama2:latest gpt-4:latest''),
      ollama_chat = scripted_chat,
      md5_hexdigest = (\<lambda>k. k)\<rparr>"

definition dummy_stages ::
  "string + string \<Rightarrow> string + train_output \<Rightarrow> (unit, (string + pyval) list) stages" where
  "dummy_stages eda_outcome train_outcome =
     \<lparr>generate_eda = (\<lambda>x d. (eda_outcome, x)),
      train_and_evaluate_models = (\<lambda>x d t. (train_outcome, x)),
      retrieve_context = (\<lambda>x q k. (Inr ''Dummy retrieved context.'', x)),
      fmt = (\<lambda>c. case c of CStr s \<Rightarrow> s | CNum q \<Rightarrow> ''<float>'' | CNaN \<Rightarrow> ''nan'')\<rparr>"

definition dummy_train_output :: "rat \<Rightarrow> train_output" where
  "dummy_train_output r2 =
     \<lparr>results = [[(''Model'', CStr ''DummyModel''), (''R2'', CNum r2)]],
      trained_models = [(''DummyModel'', ''dummy_path.pkl'')]\<rparr>"

definition two_model_output :: "cell \<Rightarrow> cell \<Rightarrow> train_output" where
  "two_model_output a b =
     \<lparr>results = [[(''Model'', CStr ''LinearRegression''), (''R2'', a)],
                 [(''Model'', CStr ''RandomForestRegressor''), (''R2'', b)]],
      trained_models = [(''LinearRegression'', ''LinearRegression_1.pkl''),
                        (''RandomForestRegressor'', ''RandomForestRegressor_1.pkl'')]\<rparr>"

definition fresh_world :: "(string + pyval) list \<Rightarrow> (string + pyval) list world" where
  "fresh_world script = \<lparr>ext = script, cache = Map.empty, trace = []\<rparr>"

definition dummy_estimator :: "string list option \<Rightarrow> (int, int) estimator" where
  \<comment> \<open>predicts 1 for every row and leaves its input alone\<close>
  "dummy_estimator tcs =
     \<lparr>training_columns = tcs,
      predict = (\<lambda>f. (Inr (replicate (case f of [] \<Rightarrow> 0 | c # _ \<Rightarrow> length (snd c)) 1), f)),
      kind = Classifier\<rparr>"

definition raising_estimator :: "(int, int) estimator" where
  \<comment> \<open>an artifact without stored training columns whose \<open>predict\<close> rejects its input\<close>
  "raising_estimator =
     \<lparr>training_columns = None,
      predict = (\<lambda>f. (Inl ''X has 2 features, but LinearRegression is expecting 3 features as input.'', f)),
      kind = Regressor\<rparr>"

definition dummy_sklearn :: "(int, int) estimator \<Rightarrow> (int, int, rat) sklearn" where
  "dummy_sklearn model =
     \<lparr>joblib_load = (\<lambda>path. if path = ''dummy_classifier.pkl'' then Inr model
                              else Inl ''No such file or directory''),
      accuracy_score = (\<lambda>y p. Inr 1),
      f1_score = (\<lambda>y p. Inr 1),
      rmse = (\<lambda>y p. Inr 0),
      r2_score = (\<lambda>y p. Inr 1)\<rparr>"

section \<open>Properties of dataset resolution\<close>

lemma show_nat_400: "show_nat 400 = ''400''"
  by (simp add: show_nat.simps)

text \<open>
  C6 (as amended). The feature-engineering endpoint looks a \<open>dataset_id\<close> up in the
  requested folder; when the file is absent there it tries one alternate folder, which
  is \<open>original_data\<close> for a request on \<open>processed_data\<close> and \<open>processed_data\<close> for a
  request on any other folder, and when the file is in neither the request fails with an
  HTTP 500 error whose detail names both folders. The evaluation endpoint looks in
  \<open>processed_data\<close> only, and the training endpoint only in the folder of the selected
  source (\<open>original_data\<close>, \<open>processed_data\<close> or \<open>feature_engineered_data\<close>): neither
  falls back, and with the file missing the request fails with an HTTP 500 error whose
  detail carries the message of the HTTP 400 error raised inside.
\<close>

theorem dataset_resolution_by_endpoint:
  assumes "dataset_id \<noteq> []"
  shows
    "advanced_feature_engineering fs (Some dataset_id) file folder =
       (let alt_folder = (if folder = ''processed_data'' then ''original_data'' else ''processed_data'')
        in if path_join folder (dataset_id @ ''.csv'') \<in> fs
             then Inr (FromPath (path_join folder (dataset_id @ ''.csv'')))
           else if path_join alt_folder (dataset_id @ ''.csv'') \<in> fs
             then Inr (FromPath (path_join alt_folder (dataset_id @ ''.csv'')))
           else Inl (HTTPException 500
                      (''Feature engineering failed: No file found for dataset_id='' @ dataset_id
                       @ '' in '' @ folder @ '' or '' @ alt_folder @ ''.'')))
     \<and> evaluate fs (Some dataset_id) file =
       (if ''processed_data/'' @ dataset_id @ ''.csv'' \<in> fs
          then Inr (FromPath (''processed_data/'' @ dataset_id @ ''.csv''))
        else Inl (HTTPException 500
                   (''Evaluation failed: 400: No processed file for dataset_id='' @ sq @ dataset_id @ sq @ ''.'')))
     \<and> train_models fs False (Some dataset_id) fe_id ''original'' =
       (if ''original_data/'' @ dataset_id @ ''.csv'' \<in> fs
          then Inr (FromPath (''original_data/'' @ dataset_id @ ''.csv''))
        else Inl (HTTPException 500
                   (''Model training failed: 400: No original file found for dataset_id='' @ sq @ dataset_id @ sq @ ''.'')))
     \<and> train_models fs file (Some dataset_id) fe_id ''preprocessed'' =
       (if ''processed_data/'' @ dataset_id @ ''.csv'' \<in> fs
          then Inr (FromPath (''processed_data/'' @ dataset_id @ ''.csv''))
        else Inl (HTTPException 500
                   (''Model training failed: 400: No processed file found for dataset_id='' @ sq @ dataset_id @ sq @ ''.'')))
     \<and> train_models fs file ds_id (Some dataset_id) ''feature_engineered'' =
       (if ''feature_engineered_data/'' @ dataset_id @ ''.csv'' \<in> fs
          then Inr (FromPath (''feature_engineered_data/'' @ dataset_id @ ''.csv''))
        else Inl (HTTPException 500
                   (''Model training failed: 400: No feature-engineered file for id='' @ sq @ dataset_id @ sq @ ''.'')))"
  using assms
  by (simp add: advanced_feature_engineering_def advanced_feature_engineering_body_def
        evaluate_def evaluate_body_def train_models_def train_models_body_def
        reraise_500_def str_route_exc_def show_nat_400 truthy_def Let_def)

theorem dataset_resolution_by_endpoint_witness:
  "advanced_feature_engineering {''original_data/d1.csv''} (Some ''d1'') False ''processed_data''
     = Inr (FromPath ''original_data/d1.csv'')
   \<and> advanced_feature_engineering {''processed_data/d1.csv''} (Some ''d1'') False ''original_data''
     = Inr (FromPath ''processed_data/d1.csv'')
   \<and> advanced_feature_engineering {} (Some ''d1'') False ''processed_data''
     = Inl (HTTPException 500
             ''Feature engineering failed: No file found for dataset_id=d1 in processed_data or original_data.'')
   \<and> evaluate {''processed_data/d1.csv''} (Some ''d1'') False
     = Inr (FromPath ''processed_data/d1.csv'')
   \<and> evaluate {''original_data/d1.csv''} (Some ''d1'') False
     = Inl (HTTPException 500
             (''Evaluation failed: 400: No processed file for dataset_id='' @ sq @ ''d1'' @ sq @ ''.''))
   \<and> train_models {''original_data/d1.csv''} False (Some ''d1'') None ''preprocessed''
     = Inl (HTTPException 500
             (''Model training failed: 400: No processed file found for dataset_id='' @ sq @ ''d1'' @ sq @ ''.''))
   \<and> train_models {''feature_engineered_data/d1.csv''} False None (Some ''d1'') ''feature_engineered''
     = Inr (FromPath ''feature_engineered_data/d1.csv'')"
  using dataset_resolution_by_endpoint [of "''d1''" "{''original_data/d1.csv''}" False "''processed_data''" None None]
        dataset_resolution_by_endpoint [of "''d1''" "{''processed_data/d1.csv''}" False "''original_data''" None None]
        dataset_resolution_by_endpoint [of "''d1''" "{}" False "''processed_data''" None None]
        dataset_resolution_by_endpoint [of "''d1''" "{''feature_engineered_data/d1.csv''}" False "''processed_data''" None None]
  by (simp add: path_join_def startswith_def)

text \<open>
  The claim as first stated fails: with the file in \<open>original_data\<close> only, evaluation and
  training on the processed stage fail instead of falling back; with the file in
  \<open>processed_data\<close> only, training on the original stage fails; and a
  feature-engineering request on \<open>feature_engineered_data\<close> does fall back.
\<close>

theorem dataset_resolution_counterexample:
  "evaluate {''original_data/d1.csv''} (Some ''d1'') False
     = Inl (HTTPException 500
             (''Evaluation failed: 400: No processed file for dataset_id='' @ sq @ ''d1'' @ sq @ ''.''))
   \<and> train_models {''original_data/d1.csv''} False (Some ''d1'') None ''preprocessed''
     = Inl (HTTPException 500
             (''Model training failed: 400: No processed file found for dataset_id='' @ sq @ ''d1'' @ sq @ ''.''))
   \<and> train_models {''processed_data/d1.csv''} False (Some ''d1'') None ''original''
     = Inl (HTTPException 500
             (''Model training failed: 400: No original file found for dataset_id='' @ sq @ ''d1'' @ sq @ ''.''))
   \<and> advanced_feature_engineering {''processed_data/d1.csv''} (Some ''d1'') False ''feature_engineered_data''
     = Inr (FromPath ''processed_data/d1.csv'')"
  by (simp add: advanced_feature_engineering_def advanced_feature_engineering_body_def
        evaluate_def evaluate_body_def train_models_def train_models_body_def
        reraise_500_def str_route_exc_def show_nat_400 truthy_def path_join_def startswith_def)

section \<open>Properties of the Orchestrator\<close>

text \<open>
  C7. When the EDA stage raises, \<open>decide_next_steps\<close> returns exactly the decision
  \<open>{"error": "EDA failed", "details": str(e)}\<close>, which has no \<open>next_action\<close> key, and
  the only call it has made is the one to the EDA stage: the training stage is not
  invoked.
\<close>

theorem eda_failure_short_circuits:
  assumes "generate_eda st (ext w) data = (Inl m, x)"
  shows "\<exists>d w'. decide_next_steps be st self w data target_col = (Inr d, w')
           \<and> d = [(''error'', DStr ''EDA failed''), (''details'', DStr m)]
           \<and> map_of d ''next_action'' = None
           \<and> w' = w\<lparr>ext := x, trace := trace w @ [EDA]\<rparr>"
  using assms by (simp add: decide_next_steps_def call_eda_def)

theorem eda_failure_short_circuits_witness:
  "\<exists>d w'. decide_next_steps scripted_backend
              (dummy_stages (Inl ''EDA error'') (Inr (dummy_train_output (7/10))))
              init (fresh_world []) () ''target'' = (Inr d, w')
     \<and> d = [(''error'', DStr ''EDA failed''), (''details'', DStr ''EDA error'')]
     \<and> map_of d ''next_action'' = None
     \<and> trace w' = [EDA] \<and> Train \<notin> set (trace w')"
  using eda_failure_short_circuits
          [of "dummy_stages (Inl ''EDA error'') (Inr (dummy_train_output (7/10)))"
              "fresh_world []" "()" "''EDA error''" "[]" scripted_backend init "''target''"]
  by (simp add: dummy_stages_def fresh_world_def)

text \<open>
  C8. With the default \<open>eda_quality_threshold\<close> of 0.8 and the data-quality score fixed
  at 0.85 in the code, no call of \<open>decide_next_steps\<close> returns the action
  \<open>Perform advanced feature engineering.\<close>, whatever the dataset and whatever the
  collaborators do.
\<close>

theorem feature_engineering_branch_unreachable:
  assumes "eda_quality_threshold self = 8 / 10"
    and "fst (decide_next_steps be st self w data target_col) = Inr d"
  shows "map_of d ''next_action'' \<noteq> Some (DStr ''Perform advanced feature engineering.'')"
  using assms
  by (auto simp: decide_next_steps_def Let_def split: prod.splits sum.splits bool.splits)

lemma good_run:
  "decide_next_steps scripted_backend
       (dummy_stages (Inr ''Dummy EDA Report'') (Inr (dummy_train_output (9/10))))
       init (fresh_world []) () ''target''
   = (Inr [(''eda_report'', DStr ''Dummy EDA Report''),
           (''model_results'', DRows [[(''Model'', CStr ''DummyModel''), (''R2'', CNum (9/10))]]),
           (''next_action'', DStr ''Proceed to forecasting or deployment.''),
           (''reason'', DStr ''Data quality & model performance are satisfactory (R2=<float>).'')],
      \<lparr>ext = [], cache = Map.empty, trace = [EDA, Train]\<rparr>)"
  by (simp add: decide_next_steps_def call_eda_def call_train_def init_def dummy_stages_def
        dummy_train_output_def fresh_world_def best_r2_of_def py_max_def row_get_def)

theorem feature_engineering_branch_unreachable_witness:
  "eda_quality_threshold init = 8 / 10
   \<and> fst (decide_next_steps scripted_backend
            (dummy_stages (Inr ''Dummy EDA Report'') (Inr (dummy_train_output (9/10))))
            init (fresh_world []) () ''target'')
       = Inr [(''eda_report'', DStr ''Dummy EDA Report''),
              (''model_results'', DRows [[(''Model'', CStr ''DummyModel''), (''R2'', CNum (9/10))]]),
              (''next_action'', DStr ''Proceed to forecasting or deployment.''),
              (''reason'', DStr ''Data quality & model performance are satisfactory (R2=<float>).'')]
   \<and> map_of [(''eda_report'', DStr ''Dummy EDA Report''),
              (''model_results'', DRows [[(''Model'', CStr ''DummyModel''), (''R2'', CNum (9/10))]]),
              (''next_action'', DStr ''Proceed to forecasting or deployment.''),
              (''reason'', DStr ''Data quality & model performance are satisfactory (R2=<float>).'')]
         ''next_action'' \<noteq> Some (DStr ''Perform advanced feature engineering.'')"
proof -
  have t: "eda_quality_threshold init = 8 / 10" by (simp add: init_def)
  have r: "fst (decide_next_steps scripted_backend
            (dummy_stages (Inr ''Dummy EDA Report'') (Inr (dummy_train_output (9/10))))
            init (fresh_world []) () ''target'')
       = Inr [(''eda_report'', DStr ''Dummy EDA Report''),
              (''model_results'', DRows [[(''Model'', CStr ''DummyModel''), (''R2'', CNum (9/10))]]),
              (''next_action'', DStr ''Proceed to forecasting or deployment.''),
              (''reason'', DStr ''Data quality & model performance are satisfactory (R2=<float>).'')]"
    by (simp add: good_run)
  from t r feature_engineering_branch_unreachable [OF t r] show ?thesis by blast
qed

subsection \<open>Branching on the best R2\<close>

text \<open>
  What Python's \<open>max\<close> returns on the \<open>R2\<close> entries: on floats it keeps its first
  element for good when that is NaN and skips every later NaN; a string among floats
  makes a comparison raise, and a maximum that is a string cannot be compared with the
  threshold.
\<close>

lemma max_from_floats:
  "\<forall>x\<in>set xs. is_float x \<Longrightarrow> max_from (CNum m) xs = Inr (CNum (fold max (nums xs) m))"
proof (induction xs arbitrary: m)
  case Nil
  then show ?case by simp
next
  case (Cons x xs)
  then show ?case by (cases x) (simp_all add: is_float_def max_def)
qed

lemma max_from_nan:
  "\<forall>x\<in>set xs. is_float x \<Longrightarrow> max_from CNaN xs = Inr CNaN"
proof (induction xs)
  case Nil
  then show ?case by simp
next
  case (Cons x xs)
  then show ?case by (cases x) (simp_all add: is_float_def)
qed

lemma max_from_float_then_string:
  "is_float m \<Longrightarrow> \<exists>x\<in>set xs. \<not> is_float x \<Longrightarrow>
     max_from m xs = Inl (TypeError ''not supported between instances'')"
proof (induction xs arbitrary: m)
  case Nil
  then show ?case by simp
next
  case (Cons x xs)
  show ?case
  proof (cases x)
    case (CStr s)
    with Cons.prems(1) show ?thesis by (cases m) (simp_all add: is_float_def)
  next
    case (CNum q)
    with Cons.prems have rest: "\<exists>x\<in>set xs. \<not> is_float x" by (simp add: is_float_def)
    from CNum Cons.prems(1) have "\<exists>b. cell_lt m x = Inr b"
      by (cases m) (auto simp: is_float_def)
    then obtain b where b: "cell_lt m x = Inr b" ..
    have "is_float (if b then x else m)" using CNum Cons.prems(1) by (simp add: is_float_def)
    from Cons.IH [OF this rest] b show ?thesis by simp
  next
    case CNaN
    with Cons.prems have rest: "\<exists>x\<in>set xs. \<not> is_float x" by (simp add: is_float_def)
    from CNaN Cons.prems(1) have b: "cell_lt m x = Inr False"
      by (cases m) (simp_all add: is_float_def)
    from Cons.IH [OF Cons.prems(1) rest] b show ?thesis by simp
  qed
qed

lemma max_from_string:
  "(\<exists>r. max_from (CStr s) xs = Inr (CStr r))
   \<or> max_from (CStr s) xs = Inl (TypeError ''not supported between instances'')"
proof (induction xs arbitrary: s)
  case Nil
  then show ?case by simp
next
  case (Cons x xs)
  show ?case
  proof (cases x)
    case (CStr t)
    show ?thesis
    proof (cases "str_lt s t")
      case True
      with CStr Cons.IH [of t] show ?thesis by simp
    next
      case False
      with CStr Cons.IH [of s] show ?thesis by simp
    qed
  next
    case (CNum q)
    then show ?thesis by simp
  next
    case CNaN
    then show ?thesis by simp
  qed
qed


lemma best_r2_of_floats:
  assumes xs: "xs = map (\<lambda>row. row_get row ''R2'' (CNum 0)) rs"
    and fl: "\<forall>x\<in>set xs. is_float x"
  shows "best_r2_of rs
           = Inr (if xs = [] then CNum 0 else if hd xs = CNaN then CNaN
                  else CNum (Max (set (nums xs))))"
proof (cases xs)
  case Nil
  with xs show ?thesis by (simp add: best_r2_of_def py_max_def)
next
  case (Cons x rest)
  from fl Cons have rest: "\<forall>y\<in>set rest. is_float y" and x: "is_float x" by simp_all
  from xs Cons have m: "map (\<lambda>row. row_get row ''R2'' (CNum 0)) rs = x # rest" by simp
  have b: "best_r2_of rs = max_from x rest"
    by (simp add: best_r2_of_def py_max_def m)
  show ?thesis
  proof (cases x)
    case (CStr s)
    with x show ?thesis by (simp add: is_float_def)
  next
    case (CNum q)
    have "fold max (nums rest) q = Max (set (q # nums rest))"
      by (simp only: Max.set_eq_fold)
    with b CNum Cons max_from_floats [OF rest, of q] show ?thesis by simp
  next
    case CNaN
    with b Cons max_from_nan [OF rest] show ?thesis by simp
  qed
qed

lemma best_r2_of_string:
  assumes xs: "xs = map (\<lambda>row. row_get row ''R2'' (CNum 0)) rs"
    and str: "\<exists>x\<in>set xs. \<not> is_float x"
  shows "best_r2_of rs = Inl (TypeError ''not supported between instances'')
         \<or> (\<exists>r. best_r2_of rs = Inr (CStr r))"
proof (cases xs)
  case Nil
  with str show ?thesis by simp
next
  case (Cons x rest)
  from xs Cons have m: "map (\<lambda>row. row_get row ''R2'' (CNum 0)) rs = x # rest" by simp
  have b: "best_r2_of rs = max_from x rest"
    by (simp add: best_r2_of_def py_max_def m)
  show ?thesis
  proof (cases "is_float x")
    case True
    with str Cons have "\<exists>y\<in>set rest. \<not> is_float y" by auto
    from max_from_float_then_string [OF True this] b show ?thesis by simp
  next
    case False
    then obtain s where "x = CStr s" by (cases x) (simp_all add: is_float_def)
    with b max_from_string [of s rest] show ?thesis by auto
  qed
qed


lemma decide_tune:
  assumes eda: "generate_eda st (ext w) data = (Inr report, x1)"
    and train: "train_and_evaluate_models st x1 data target_col = (Inr out, x2)"
    and best: "best_r2_of (results out) = Inr (CNum q)"
    and low: "q < 75 / 100"
  shows "\<exists>d w'. decide_next_steps be st init w data target_col = (Inr d, w')
           \<and> map_of d ''next_action'' = Some (DStr ''Tune hyperparameters or try alternative models.'')
           \<and> map_of d ''ai_insights'' \<noteq> None"
  using eda train best low
  by (simp add: decide_next_steps_def call_eda_def call_train_def init_def Let_def
        split: prod.splits)

lemma decide_proceed:
  assumes eda: "generate_eda st (ext w) data = (Inr report, x1)"
    and train: "train_and_evaluate_models st x1 data target_col = (Inr out, x2)"
    and best: "best_r2_of (results out) = Inr b"
    and high: "cell_lt b (CNum (75 / 100)) = Inr False"
  shows "\<exists>d. decide_next_steps be st init w data target_col
               = (Inr d, w\<lparr>ext := x2, trace := trace w @ [EDA, Train]\<rparr>)
           \<and> map_of d ''next_action'' = Some (DStr ''Proceed to forecasting or deployment.'')
           \<and> map_of d ''ai_insights'' = None"
  using eda train best high
  by (simp add: decide_next_steps_def call_eda_def call_train_def init_def Let_def)

lemma decide_type_error:
  assumes eda: "generate_eda st (ext w) data = (Inr report, x1)"
    and train: "train_and_evaluate_models st x1 data target_col = (Inr out, x2)"
    and best: "best_r2_of (results out) = Inl e
               \<or> (\<exists>r. best_r2_of (results out) = Inr (CStr r)
                       \<and> e = TypeError ''not supported between instances'')"
  shows "decide_next_steps be st init w data target_col
           = (Inl e, w\<lparr>ext := x2, trace := trace w @ [EDA, Train]\<rparr>)"
  using eda train best
  by (auto simp: decide_next_steps_def call_eda_def call_train_def init_def Let_def)

text \<open>
  C3 (as amended). When EDA and training succeed, \<open>best_r2\<close> is Python's \<open>max\<close> over
  \<open>row.get("R2", 0)\<close> with default 0.0. For float entries it is 0 for no rows, NaN when
  the first row's entry is NaN, and otherwise the maximum of the entries that are not
  NaN. With the default thresholds: if \<open>best_r2\<close> is a number below 0.75 the decision
  has \<open>next_action\<close> \<open>Tune hyperparameters or try alternative models.\<close> and an
  \<open>ai_insights\<close> key; in every other case (a number of at least 0.75, or NaN) it has
  \<open>next_action\<close> \<open>Proceed to forecasting or deployment.\<close>, no \<open>ai_insights\<close> key, and
  the calls made are those to EDA and training only, so the Insight Generator is not
  invoked. If some entry is a string, the call raises a \<open>TypeError\<close> after training.
\<close>

theorem model_performance_branching:
  assumes eda: "generate_eda st (ext w) data = (Inr report, x1)"
    and train: "train_and_evaluate_models st x1 data target_col = (Inr out, x2)"
    and xs: "xs = map (\<lambda>row. row_get row ''R2'' (CNum 0)) (results out)"
  shows
    "((\<forall>x\<in>set xs. is_float x) \<longrightarrow>
        (\<exists>b. best_r2_of (results out) = Inr b
           \<and> b = (if xs = [] then CNum 0 else if hd xs = CNaN then CNaN
                  else CNum (Max (set (nums xs))))
           \<and> ((\<exists>q. b = CNum q \<and> q < 75 / 100) \<longrightarrow>
                (\<exists>d w'. decide_next_steps be st init w data target_col = (Inr d, w')
                   \<and> map_of d ''next_action''
                       = Some (DStr ''Tune hyperparameters or try alternative models.'')
                   \<and> map_of d ''ai_insights'' \<noteq> None))
           \<and> (\<not> (\<exists>q. b = CNum q \<and> q < 75 / 100) \<longrightarrow>
                (\<exists>d. decide_next_steps be st init w data target_col
                       = (Inr d, w\<lparr>ext := x2, trace := trace w @ [EDA, Train]\<rparr>)
                   \<and> map_of d ''next_action'' = Some (DStr ''Proceed to forecasting or deployment.'')
                   \<and> map_of d ''ai_insights'' = None))))
     \<and> ((\<exists>x\<in>set xs. \<not> is_float x) \<longrightarrow>
          decide_next_steps be st init w data target_col
            = (Inl (TypeError ''not supported between instances''),
               w\<lparr>ext := x2, trace := trace w @ [EDA, Train]\<rparr>))"
proof (rule conjI; rule impI)
  assume fl: "\<forall>x\<in>set xs. is_float x"
  define b where "b = (if xs = [] then CNum 0 else if hd xs = CNaN then CNaN
                  else CNum (Max (set (nums xs))))"
  have best: "best_r2_of (results out) = Inr b"
    unfolding b_def using xs fl by (rule best_r2_of_floats)
  have bf: "is_float b" by (simp add: b_def is_float_def)
  have tune: "\<exists>d w'. decide_next_steps be st init w data target_col = (Inr d, w')
                   \<and> map_of d ''next_action''
                       = Some (DStr ''Tune hyperparameters or try alternative models.'')
                   \<and> map_of d ''ai_insights'' \<noteq> None"
    if "\<exists>q. b = CNum q \<and> q < 75 / 100"
  proof -
    from that obtain q where q: "b = CNum q" "q < 75 / 100" by (elim exE conjE)
    from best q(1) have "best_r2_of (results out) = Inr (CNum q)" by simp
    from eda train this q(2) show ?thesis by (rule decide_tune)
  qed
  have proceed: "\<exists>d. decide_next_steps be st init w data target_col
                       = (Inr d, w\<lparr>ext := x2, trace := trace w @ [EDA, Train]\<rparr>)
                   \<and> map_of d ''next_action'' = Some (DStr ''Proceed to forecasting or deployment.'')
                   \<and> map_of d ''ai_insights'' = None"
    if no: "\<not> (\<exists>q. b = CNum q \<and> q < 75 / 100)"
  proof -
    have "cell_lt b (CNum (75 / 100)) = Inr False"
    proof (cases b)
      case (CStr s)
      with bf show ?thesis by (simp add: is_float_def)
    next
      case (CNum q)
      with no have "\<not> q < 75 / 100" by simp
      with CNum show ?thesis by simp
    next
      case CNaN
      then show ?thesis by simp
    qed
    with eda train best show ?thesis by (rule decide_proceed)
  qed
  show "\<exists>b. best_r2_of (results out) = Inr b
           \<and> b = (if xs = [] then CNum 0 else if hd xs = CNaN then CNaN
                  else CNum (Max (set (nums xs))))
           \<and> ((\<exists>q. b = CNum q \<and> q < 75 / 100) \<longrightarrow>
                (\<exists>d w'. decide_next_steps be st init w data target_col = (Inr d, w')
                   \<and> map_of d ''next_action''
                       = Some (DStr ''Tune hyperparameters or try alternative models.'')
                   \<and> map_of d ''ai_insights'' \<noteq> None))
           \<and> (\<not> (\<exists>q. b = CNum q \<and> q < 75 / 100) \<longrightarrow>
                (\<exists>d. decide_next_steps be st init w data target_col
                       = (Inr d, w\<lparr>ext := x2, trace := trace w @ [EDA, Train]\<rparr>)
                   \<and> map_of d ''next_action'' = Some (DStr ''Proceed to forecasting or deployment.'')
                   \<and> map_of d ''ai_insights'' = None))"
  proof (rule exI [where x = b], intro conjI impI)
    show "best_r2_of (results out) = Inr b" by (rule best)
    show "b = (if xs = [] then CNum 0 else if hd xs = CNaN then CNaN
                  else CNum (Max (set (nums xs))))" by (rule b_def)
    show "\<exists>d w'. decide_next_steps be st init w data target_col = (Inr d, w')
                   \<and> map_of d ''next_action''
                       = Some (DStr ''Tune hyperparameters or try alternative models.'')
                   \<and> map_of d ''ai_insights'' \<noteq> None"
      if "\<exists>q. b = CNum q \<and> q < 75 / 100"
      using that by (rule tune)
    show "\<exists>d. decide_next_steps be st init w data target_col
                       = (Inr d, w\<lparr>ext := x2, trace := trace w @ [EDA, Train]\<rparr>)
                   \<and> map_of d ''next_action'' = Some (DStr ''Proceed to forecasting or deployment.'')
                   \<and> map_of d ''ai_insights'' = None"
      if "\<not> (\<exists>q. b = CNum q \<and> q < 75 / 100)"
      using that by (rule proceed)
  qed
next
  assume str: "\<exists>x\<in>set xs. \<not> is_float x"
  from best_r2_of_string [OF xs str]
  have "best_r2_of (results out) = Inl (TypeError ''not supported between instances'')
        \<or> (\<exists>r. best_r2_of (results out) = Inr (CStr r)
               \<and> TypeError ''not supported between instances''
                   = TypeError ''not supported between instances'')"
    by simp
  with eda train show "decide_next_steps be st init w data target_col
            = (Inl (TypeError ''not supported between instances''),
               w\<lparr>ext := x2, trace := trace w @ [EDA, Train]\<rparr>)"
    by (rule decide_type_error)
qed


theorem model_performance_branching_witness:
  "(\<exists>d w'. decide_next_steps scripted_backend
               (dummy_stages (Inr ''Dummy EDA Report'') (Inr (dummy_train_output (7/10))))
               init (fresh_world [Inr (PDict [(''response'', PStr ''Dummy AI Insights'')])]) () ''target''
             = (Inr d, w')
       \<and> map_of d ''next_action'' = Some (DStr ''Tune hyperparameters or try alternative models.'')
       \<and> map_of d ''ai_insights'' \<noteq> None)
   \<and> (\<exists>d. decide_next_steps scripted_backend
               (dummy_stages (Inr ''Dummy EDA Report'') (Inr (dummy_train_output (9/10))))
               init (fresh_world []) () ''target''
             = (Inr d, \<lparr>ext = [], cache = Map.empty, trace = [EDA, Train]\<rparr>)
       \<and> map_of d ''next_action'' = Some (DStr ''Proceed to forecasting or deployment.'')
       \<and> map_of d ''ai_insights'' = None)
   \<and> (\<exists>d. decide_next_steps scripted_backend
               (dummy_stages (Inr ''Dummy EDA Report'') (Inr (two_model_output CNaN (CNum (1/10)))))
               init (fresh_world []) () ''target''
             = (Inr d, \<lparr>ext = [], cache = Map.empty, trace = [EDA, Train]\<rparr>)
       \<and> map_of d ''next_action'' = Some (DStr ''Proceed to forecasting or deployment.'')
       \<and> map_of d ''ai_insights'' = None)"
proof (intro conjI)
  let ?script = "[Inr (PDict [(''response'', PStr ''Dummy AI Insights'')])]"
  let ?st = "dummy_stages (Inr ''Dummy EDA Report'') (Inr (dummy_train_output (7/10)))"
  have e: "generate_eda ?st (ext (fresh_world ?script)) () = (Inr ''Dummy EDA Report'', ?script)"
    by (simp add: dummy_stages_def fresh_world_def)
  have t: "train_and_evaluate_models ?st ?script () ''target''
             = (Inr (dummy_train_output (7/10)), ?script)"
    by (simp add: dummy_stages_def)
  have x: "[CNum (7/10)] = map (\<lambda>row. row_get row ''R2'' (CNum 0)) (results (dummy_train_output (7/10)))"
    by (simp add: dummy_train_output_def row_get_def)
  have f: "\<forall>c\<in>set [CNum (7/10)]. is_float c" by (simp add: is_float_def)
  from model_performance_branching [where be = scripted_backend, OF e t x, THEN conjunct1, THEN mp, OF f]
  obtain b where
    b: "b = (if [CNum (7/10)] = [] then CNum 0 else if hd [CNum (7/10)] = CNaN then CNaN
             else CNum (Max (set (nums [CNum (7/10)]))))"
    and tune: "(\<exists>q. b = CNum q \<and> q < 75 / 100) \<longrightarrow>
                (\<exists>d w'. decide_next_steps scripted_backend ?st init (fresh_world ?script) () ''target''
                           = (Inr d, w')
                   \<and> map_of d ''next_action''
                       = Some (DStr ''Tune hyperparameters or try alternative models.'')
                   \<and> map_of d ''ai_insights'' \<noteq> None)"
    by (elim exE conjE)
  from b have "b = CNum (7/10) \<and> (7/10 :: rat) < 75 / 100" by simp
  then have "\<exists>q. b = CNum q \<and> q < 75 / 100" by (rule exI)
  with tune show "\<exists>d w'. decide_next_steps scripted_backend ?st init (fresh_world ?script) () ''target''
                           = (Inr d, w')
                   \<and> map_of d ''next_action''
                       = Some (DStr ''Tune hyperparameters or try alternative models.'')
                   \<and> map_of d ''ai_insights'' \<noteq> None"
    by (rule mp)
next
  let ?st = "dummy_stages (Inr ''Dummy EDA Report'') (Inr (dummy_train_output (9/10)))"
  have e: "generate_eda ?st (ext (fresh_world [])) () = (Inr ''Dummy EDA Report'', [])"
    by (simp add: dummy_stages_def fresh_world_def)
  have t: "train_and_evaluate_models ?st [] () ''target'' = (Inr (dummy_train_output (9/10)), [])"
    by (simp add: dummy_stages_def)
  have x: "[CNum (9/10)] = map (\<lambda>row. row_get row ''R2'' (CNum 0)) (results (dummy_train_output (9/10)))"
    by (simp add: dummy_train_output_def row_get_def)
  have f: "\<forall>c\<in>set [CNum (9/10)]. is_float c" by (simp add: is_float_def)
  have w: "fresh_world []\<lparr>ext := [], trace := trace (fresh_world []) @ [EDA, Train]\<rparr>
             = \<lparr>ext = [], cache = Map.empty, trace = [EDA, Train]\<rparr>"
    by (simp add: fresh_world_def)
  from model_performance_branching [where be = scripted_backend, OF e t x, THEN conjunct1, THEN mp, OF f]
  obtain b where
    b: "b = (if [CNum (9/10)] = [] then CNum 0 else if hd [CNum (9/10)] = CNaN then CNaN
             else CNum (Max (set (nums [CNum (9/10)]))))"
    and proceed: "\<not> (\<exists>q. b = CNum q \<and> q < 75 / 100) \<longrightarrow>
                (\<exists>d. decide_next_steps scripted_backend ?st init (fresh_world []) () ''target''
                       = (Inr d, fresh_world []\<lparr>ext := [], trace := trace (fresh_world []) @ [EDA, Train]\<rparr>)
                   \<and> map_of d ''next_action'' = Some (DStr ''Proceed to forecasting or deployment.'')
                   \<and> map_of d ''ai_insights'' = None)"
    by (elim exE conjE)
  from b have "b = CNum (9/10)" by simp
  then have "\<not> (\<exists>q. b = CNum q \<and> q < 75 / 100)" by simp
  with proceed show "\<exists>d. decide_next_steps scripted_backend ?st init (fresh_world []) () ''target''
                       = (Inr d, \<lparr>ext = [], cache = Map.empty, trace = [EDA, Train]\<rparr>)
                   \<and> map_of d ''next_action'' = Some (DStr ''Proceed to forecasting or deployment.'')
                   \<and> map_of d ''ai_insights'' = None"
    unfolding w by (rule mp)
next
  let ?out = "two_model_output CNaN (CNum (1/10))"
  let ?st = "dummy_stages (Inr ''Dummy EDA Report'') (Inr ?out)"
  have e: "generate_eda ?st (ext (fresh_world [])) () = (Inr ''Dummy EDA Report'', [])"
    by (simp add: dummy_stages_def fresh_world_def)
  have t: "train_and_evaluate_models ?st [] () ''target'' = (Inr ?out, [])"
    by (simp add: dummy_stages_def)
  have x: "[CNaN, CNum (1/10)] = map (\<lambda>row. row_get row ''R2'' (CNum 0)) (results ?out)"
    by (simp add: two_model_output_def row_get_def)
  have f: "\<forall>c\<in>set [CNaN, CNum (1/10)]. is_float c" by (simp add: is_float_def)
  have w: "fresh_world []\<lparr>ext := [], trace := trace (fresh_world []) @ [EDA, Train]\<rparr>
             = \<lparr>ext = [], cache = Map.empty, trace = [EDA, Train]\<rparr>"
    by (simp add: fresh_world_def)
  from model_performance_branching [where be = scripted_backend, OF e t x, THEN conjunct1, THEN mp, OF f]
  obtain b where
    b: "b = (if [CNaN, CNum (1/10)] = [] then CNum 0 else if hd [CNaN, CNum (1/10)] = CNaN then CNaN
             else CNum (Max (set (nums [CNaN, CNum (1/10)]))))"
    and proceed: "\<not> (\<exists>q. b = CNum q \<and> q < 75 / 100) \<longrightarrow>
                (\<exists>d. decide_next_steps scripted_backend ?st init (fresh_world []) () ''target''
                       = (Inr d, fresh_world []\<lparr>ext := [], trace := trace (fresh_world []) @ [EDA, Train]\<rparr>)
                   \<and> map_of d ''next_action'' = Some (DStr ''Proceed to forecasting or deployment.'')
                   \<and> map_of d ''ai_insights'' = None)"
    by (elim exE conjE)
  from b have "b = CNaN" by simp
  then have "\<not> (\<exists>q. b = CNum q \<and> q < 75 / 100)" by simp
  with proceed show "\<exists>d. decide_next_steps scripted_backend ?st init (fresh_world []) () ''target''
                       = (Inr d, \<lparr>ext = [], cache = Map.empty, trace = [EDA, Train]\<rparr>)
                   \<and> map_of d ''next_action'' = Some (DStr ''Proceed to forecasting or deployment.'')
                   \<and> map_of d ''ai_insights'' = None"
    unfolding w by (rule mp)
qed

text \<open>
  The claim as first stated fails: with \<open>R2\<close> entries NaN and 0.1 in this order,
  \<open>best_r2\<close> is NaN and the decision is to proceed, although the one number among the
  entries is below the threshold; in the other order \<open>best_r2\<close> is 0.1. So \<open>best_r2\<close> is
  not the maximum of the \<open>R2\<close> values, which does not depend on their order.
\<close>

theorem best_r2_not_maximum_counterexample:
  "best_r2_of (results (two_model_output CNaN (CNum (1/10)))) = Inr CNaN
   \<and> best_r2_of (results (two_model_output (CNum (1/10)) CNaN)) = Inr (CNum (1/10))
   \<and> fst (decide_next_steps scripted_backend
            (dummy_stages (Inr ''Dummy EDA Report'') (Inr (two_model_output CNaN (CNum (1/10)))))
            init (fresh_world []) () ''target'')
       = Inr [(''eda_report'', DStr ''Dummy EDA Report''),
              (''model_results'',
               DRows [[(''Model'', CStr ''LinearRegression''), (''R2'', CNaN)],
                      [(''Model'', CStr ''RandomForestRegressor''), (''R2'', CNum (1/10))]]),
              (''next_action'', DStr ''Proceed to forecasting or deployment.''),
              (''reason'', DStr ''Data quality & model performance are satisfactory (R2=nan).'')]"
  by (simp add: decide_next_steps_def call_eda_def call_train_def init_def dummy_stages_def
        two_model_output_def fresh_world_def best_r2_of_def py_max_def row_get_def)

section \<open>Properties of the Insight Generator\<close>

text \<open>
  Two facts used below: what the generation call does when the first attempt fails and a
  retry is due, and what \<open>generate_ai_insights\<close> is once the model is accepted and the
  cache gives no text.
\<close>

lemma py_lower_available:
  "m \<in> set AVAILABLE_MODELS \<Longrightarrow> (py_lower m = ''gpt-4'') = (m = ''gpt-4'')"
  by (auto simp: AVAILABLE_MODELS_def py_lower_def py_lower_char_def)

lemma chat_with_fallback_retry:
  assumes "ollama_chat be (ext w) m prompt = (Inl e, x1)"
    and "py_contains ''requires more system memory'' e \<or> py_lower m = ''gpt-4''"
    and "ollama_chat be x1 ''mistral'' prompt = (r2, x2)"
  shows "chat_with_fallback be w m prompt =
           (case r2 of Inl fallback_e \<Rightarrow> Inl (Raised fallback_e)
                     | Inr response \<Rightarrow> Inr (response, ''mistral''),
            w\<lparr>ext := x2, trace := trace w @ [Chat m prompt, Chat ''mistral'' prompt]\<rparr>)"
  using assms
  by (cases r2) (auto simp: chat_with_fallback_def chat_def Let_def)

lemma generate_on_miss:
  assumes "model_choice \<in> set AVAILABLE_MODELS"
    and "is_model_available be (ext w) model_choice"
    and "prompt = build_prompt eda_summary model_summary chunk_threshold enable_cot"
    and "cache_file = get_cache_filename be prompt model_choice"
    and "force_regenerate \<or> clear_cache
         \<or> (case cache w cache_file of None \<Rightarrow> True | Some fc \<Rightarrow> read_cached fc = None)"
  shows "generate_ai_insights be w eda_summary model_summary model_choice chunk_threshold
           force_regenerate enable_cot max_tokens clear_cache
         = (case chat_with_fallback be
                   (w\<lparr>cache := (if force_regenerate \<or> clear_cache
                                 then (cache w)(cache_file := None) else cache w),
                      trace := trace w @ [Insights model_choice]\<rparr>)
                   model_choice prompt of
              (Inl e, w2) \<Rightarrow> (Inl e, w2)
            | (Inr (response, effective_model), w2) \<Rightarrow>
                (case extract_insights response of
                   Inl e \<Rightarrow> (Inl e, w2)
                 | Inr v \<Rightarrow>
                     (case strip_val v of
                        Inl e \<Rightarrow> (Inl e, w2)
                      | Inr insights \<Rightarrow>
                          if insights \<noteq> [] then
                            (Inr insights,
                             w2\<lparr>cache := (cache w2)(cache_file \<mapsto>
                                    Json (PDict [(''insights'', PStr insights)]))\<rparr>)
                          else (Inr insights, w2))))"
proof -
  have keep: "\<And>m :: string \<rightharpoonup> fcontent. m cache_file = None \<Longrightarrow> m(cache_file := None) = m"
    by (rule fun_upd_idem) simp
  show ?thesis
    using assms(1,2,5)
    unfolding generate_ai_insights_def Let_def assms(3)[symmetric] assms(4)[symmetric]
    by (cases w) (auto simp: keep split: option.splits)
qed

text \<open>
  C1 (as amended). When \<open>model_choice\<close> is \<open>gpt-4\<close> and the first backend call raises,
  whatever the exception, \<open>generate_ai_insights\<close> makes exactly one more backend call,
  to \<open>mistral\<close> with the same prompt; and if that call raises too, the exception that
  reaches the caller is the one raised by the \<open>mistral\<close> call.
\<close>

theorem gpt4_failure_falls_back_once:
  assumes avail: "is_model_available be (ext w) ''gpt-4''"
    and prompt: "prompt = build_prompt eda_summary model_summary chunk_threshold enable_cot"
    and cfile: "cache_file = get_cache_filename be prompt ''gpt-4''"
    and nohit: "force_regenerate \<or> clear_cache
                \<or> (case cache w cache_file of None \<Rightarrow> True | Some fc \<Rightarrow> read_cached fc = None)"
    and first: "ollama_chat be (ext w) ''gpt-4'' prompt = (Inl e, x1)"
    and second: "ollama_chat be x1 ''mistral'' prompt = (r2, x2)"
  shows "trace (snd (generate_ai_insights be w eda_summary model_summary ''gpt-4'' chunk_threshold
                       force_regenerate enable_cot max_tokens clear_cache))
           = trace w @ [Insights ''gpt-4'', Chat ''gpt-4'' prompt, Chat ''mistral'' prompt]
         \<and> (\<forall>fallback_e. r2 = Inl fallback_e \<longrightarrow>
               fst (generate_ai_insights be w eda_summary model_summary ''gpt-4'' chunk_threshold
                      force_regenerate enable_cot max_tokens clear_cache)
                 = Inl (Raised fallback_e))"
proof -
  have m: "''gpt-4'' \<in> set AVAILABLE_MODELS" by (simp add: AVAILABLE_MODELS_def)
  have low: "py_lower ''gpt-4'' = ''gpt-4''"
    using py_lower_available [OF m] by simp
  let ?w1 = "w\<lparr>cache := (if force_regenerate \<or> clear_cache
                             then (cache w)(cache_file := None) else cache w),
                  trace := trace w @ [Insights ''gpt-4'']\<rparr>"
  have cf: "chat_with_fallback be ?w1 ''gpt-4'' prompt =
           (case r2 of Inl fallback_e \<Rightarrow> Inl (Raised fallback_e)
                     | Inr response \<Rightarrow> Inr (response, ''mistral''),
            ?w1\<lparr>ext := x2, trace := trace ?w1 @ [Chat ''gpt-4'' prompt, Chat ''mistral'' prompt]\<rparr>)"
    by (rule chat_with_fallback_retry [where e = e and ?x1.0 = x1])
       (simp_all add: first second low)
  show ?thesis
    unfolding generate_on_miss [OF m avail prompt cfile nohit] cf
    by (auto split: sum.splits)
qed

theorem gpt4_failure_falls_back_once_witness:
  "trace (snd (generate_ai_insights scripted_backend
                 (fresh_world [Inl ''gpt-4 backend error'', Inl ''mistral backend error''])
                 ''eda'' ''model'' ''gpt-4'' 1500 False False 512 False))
     = [Insights ''gpt-4'',
        Chat ''gpt-4'' (build_prompt ''eda'' ''model'' 1500 False),
        Chat ''mistral'' (build_prompt ''eda'' ''model'' 1500 False)]
   \<and> fst (generate_ai_insights scripted_backend
                 (fresh_world [Inl ''gpt-4 backend error'', Inl ''mistral backend error''])
                 ''eda'' ''model'' ''gpt-4'' 1500 False False 512 False)
     = Inl (Raised ''mistral backend error'')"
  using gpt4_failure_falls_back_once
          [of scripted_backend "fresh_world [Inl ''gpt-4 backend error'', Inl ''mistral backend error'']"
              "build_prompt ''eda'' ''model'' 1500 False" "''eda''" "''model''" 1500 False
              "get_cache_filename scripted_backend (build_prompt ''eda'' ''model'' 1500 False) ''gpt-4''"
              False False "''gpt-4 backend error''" "[Inl ''mistral backend error'']"
              "Inl ''mistral backend error''" "[]" 512]
  by (simp add: scripted_backend_def scripted_chat_def fresh_world_def is_model_available_def
        py_lower_def py_lower_char_def startswith_def)

text \<open>
  The claim as first stated fails: with both calls raising, the caller does not get the
  exception of the \<open>gpt-4\<close> call.
\<close>

theorem gpt4_original_exception_counterexample:
  "fst (generate_ai_insights scripted_backend
          (fresh_world [Inl ''gpt-4 backend error'', Inl ''mistral backend error''])
          ''eda'' ''model'' ''gpt-4'' 1500 False False 512 False)
     = Inl (Raised ''mistral backend error'')
   \<and> fst (generate_ai_insights scripted_backend
          (fresh_world [Inl ''gpt-4 backend error'', Inl ''mistral backend error''])
          ''eda'' ''model'' ''gpt-4'' 1500 False False 512 False)
     \<noteq> Inl (Raised ''gpt-4 backend error'')"
  by (simp add: generate_ai_insights_def AVAILABLE_MODELS_def
        is_model_available_def scripted_backend_def scripted_chat_def py_lower_def py_lower_char_def
        startswith_def chat_with_fallback_def chat_def fresh_world_def Let_def)





text \<open>
  C4. The claim is that the text returned and cached is cleaned for every response
  shape. The code cleans a raw string only: for a response with a nested message content
  the text \<open>[INST] Check   outliers</s>\<close> is returned and cached as it came, where
  cleaning would give \<open>Check outliers\<close>.
\<close>

theorem message_content_returned_uncleaned:
  "generate_ai_insights scripted_backend
       (fresh_world [Inr (PDict [(''message'', PDict [(''role'', PStr ''assistant''),
                                   (''content'', PStr ''[INST] Check   outliers</s>'')])])])
       ''eda'' ''model'' ''mistral'' 1500 False False 512 False
     = (Inr ''[INST] Check   outliers</s>'',
        \<lparr>ext = [],
         cache = [get_cache_filename scripted_backend (build_prompt ''eda'' ''model'' 1500 False) ''mistral''
                    \<mapsto> Json (PDict [(''insights'', PStr ''[INST] Check   outliers</s>'')])],
         trace = [Insights ''mistral'', Chat ''mistral'' (build_prompt ''eda'' ''model'' 1500 False)]\<rparr>)
   \<and> clean_response ''[INST] Check   outliers</s>'' = ''Check outliers''"
  by (simp add: generate_ai_insights_def AVAILABLE_MODELS_def
        is_model_available_def scripted_backend_def scripted_chat_def py_lower_def py_lower_char_def
        startswith_def chat_with_fallback_def chat_def fresh_world_def Let_def
        extract_insights_def py_in_def py_getitem_def strip_val_def py_strip_def py_isspace_def
        clean_response_def match_token_def is_token_char_def)

section \<open>Properties of model evaluation\<close>

subsection \<open>The caller's DataFrame\<close>

text \<open>
  Every write of \<open>evaluate_model\<close> goes to an object it allocated itself: the objects
  that were in the store before the call are the same after it.
\<close>

lemma separate_target_prefix:
  assumes "n \<le> df" and "separate_target h df t = (y, ci, h2)"
  shows "take n h2 = take n h \<and> length h2 = length h"
  using assms by (auto simp: separate_target_def split: if_splits)

lemma align_columns_prefix:
  assumes "n \<le> df" and "n \<le> length h" and "align_columns model h df ci = (r, h3)"
  shows "take n h3 = take n h \<and> (\<forall>df3 ci3. r = Inr (df3, ci3) \<longrightarrow> n \<le> df3)"
  using assms
  by (auto simp: align_columns_def alloc_def Let_def split: option.splits if_splits)

lemma evaluate_model_leaves_store_prefix:
  "take (length h) (snd (evaluate_model lib h new_df model_path target_col)) = h"
proof (cases "joblib_load lib model_path")
  case (Inl e)
  then show ?thesis by (simp add: evaluate_model_def)
next
  case (Inr model)
  obtain y ci h2 where st: "separate_target (h @ [h ! new_df]) (length h) target_col = (y, ci, h2)"
    by (cases "separate_target (h @ [h ! new_df]) (length h) target_col") auto
  from separate_target_prefix [OF _ st, of "length h"]
  have h2: "take (length h) h2 = h" "length h2 = Suc (length h)" by simp_all
  obtain r h3 where al: "align_columns model h2 (length h) ci = (r, h3)"
    by (cases "align_columns model h2 (length h) ci") auto
  from align_columns_prefix [OF _ _ al, of "length h"] h2
  have h3: "take (length h) h3 = h" "\<And>df3 ci3. r = Inr (df3, ci3) \<Longrightarrow> length h \<le> df3"
    by simp_all
  show ?thesis
  proof (cases r)
    case (Inl e)
    with Inr st al h3 show ?thesis by (simp add: evaluate_model_def alloc_def)
  next
    case (Inr a)
    then obtain df3 ci3 where a: "r = Inr (df3, ci3)" by (cases a) auto
    from h3(2) [OF a] have le: "length h \<le> df3" .
    from \<open>joblib_load lib model_path = Inr model\<close> st al a h3(1) le show ?thesis
      by (simp add: evaluate_model_def alloc_def Let_def
            split: prod.splits sum.splits option.splits)
  qed
qed

text \<open>
  C9. \<open>evaluate_model\<close> never mutates the caller's DataFrame: removing the target,
  dropping extra columns and reordering all act on an internal copy, so after the call
  the caller's DataFrame (and every other object that existed before) has the columns
  and values it had before, whether the call returns or raises.
\<close>

theorem evaluate_model_does_not_mutate_input:
  assumes "new_df < length h"
  shows "snd (evaluate_model lib h new_df model_path target_col) ! new_df = h ! new_df
         \<and> take (length h) (snd (evaluate_model lib h new_df model_path target_col)) = h"
proof -
  let ?h' = "snd (evaluate_model lib h new_df model_path target_col)"
  have p: "take (length h) ?h' = h" by (rule evaluate_model_leaves_store_prefix)
  from assms have "take (length h) ?h' ! new_df = ?h' ! new_df" by simp
  with p show ?thesis by simp
qed

theorem evaluate_model_does_not_mutate_input_witness:
  "snd (evaluate_model (dummy_sklearn (dummy_estimator (Some [''feat1'', ''feat2''])))
          [[(''feat1'', [1, 2, 3]), (''feat2'', [10, 20, 30]), (''extra'', [999, 999, 999]),
            (''target'', [1, 1, 1])]]
          0 ''dummy_classifier.pkl'' (Some ''target'')) ! 0
     = [(''feat1'', [1, 2, 3]), (''feat2'', [10, 20, 30]), (''extra'', [999, 999, 999]),
        (''target'', [1, 1, 1])]
   \<and> snd (evaluate_model (dummy_sklearn (dummy_estimator (Some [''feat1'', ''feat2''])))
          [[(''feat1'', [1, 2, 3]), (''feat2'', [10, 20, 30]), (''extra'', [999, 999, 999]),
            (''target'', [1, 1, 1])]]
          0 ''dummy_classifier.pkl'' (Some ''target''))
     = [[(''feat1'', [1, 2, 3]), (''feat2'', [10, 20, 30]), (''extra'', [999, 999, 999]),
         (''target'', [1, 1, 1])],
        [(''feat1'', [1, 2, 3]), (''feat2'', [10, 20, 30])],
        [(''feat1'', [1, 2, 3]), (''feat2'', [10, 20, 30])]]"
proof -
  have r: "snd (evaluate_model (dummy_sklearn (dummy_estimator (Some [''feat1'', ''feat2''])))
          [[(''feat1'', [1, 2, 3]), (''feat2'', [10, 20, 30]), (''extra'', [999, 999, 999]),
            (''target'', [1, 1, 1])]]
          0 ''dummy_classifier.pkl'' (Some ''target''))
     = [[(''feat1'', [1, 2, 3]), (''feat2'', [10, 20, 30]), (''extra'', [999, 999, 999]),
         (''target'', [1, 1, 1])],
        [(''feat1'', [1, 2, 3]), (''feat2'', [10, 20, 30])],
        [(''feat1'', [1, 2, 3]), (''feat2'', [10, 20, 30])]]"
    by (simp add: evaluate_model_def dummy_sklearn_def dummy_estimator_def alloc_def
          separate_target_def truthy_def columns_def drop_columns_def align_columns_def
          select_columns_def compute_metrics_def tolist_def Let_def)
  from evaluate_model_does_not_mutate_input
         [of 0 "[[(''feat1'', [1, 2, 3]), (''feat2'', [10, 20, 30]), (''extra'', [999, 999, 999]),
                  (''target'', [1, 1, 1])]]"
             "dummy_sklearn (dummy_estimator (Some [''feat1'', ''feat2'']))"
             "''dummy_classifier.pkl''" "Some ''target''"]
  show ?thesis using r by simp
qed

subsection \<open>A target column that is not in the dataset\<close>

lemma align_columns_cons:
  "align_columns model h df ((''missing_target'', v) # ci) =
     (case align_columns model h df ci of
        (Inl e, h') \<Rightarrow> (Inl e, h')
      | (Inr (d, c), h') \<Rightarrow> (Inr (d, (''missing_target'', v) # c), h'))"
  by (simp add: align_columns_def alloc_def Let_def split: option.splits)

lemma separate_target_absent:
  assumes "t \<noteq> []" and "t \<notin> set (columns (h ! df))"
  shows "separate_target h df (Some t) = (None, [(''missing_target'', IStr t)], h)"
  using assms by (simp add: separate_target_def truthy_def)

lemma separate_target_none:
  "separate_target h df None = (None, [], h)"
  by (simp add: separate_target_def truthy_def)


lemma evaluate_model_without_target:
  assumes load: "joblib_load lib model_path = Inr model"
    and sep: "separate_target (h @ [h ! new_df]) (length h) target_col
                = (None, ci, h @ [h ! new_df])"
  shows "evaluate_model lib h new_df model_path target_col =
     (case align_columns model (h @ [h ! new_df]) (length h) ci of
        (Inl e, h3) \<Rightarrow> (Inl e, h3)
      | (Inr (df3, ci3), h3) \<Rightarrow>
          (case predict model (h3 ! df3) of
             (Inl e, f) \<Rightarrow> (Inl (Raised e), h3[df3 := f])
           | (Inr p, f) \<Rightarrow>
               (Inr [(''predictions'', RPredictions p), (''column_info'', RColumnInfo ci3)],
                h3[df3 := f])))"
  using load sep
  by (simp add: evaluate_model_def alloc_def Let_def split: prod.splits sum.splits)

text \<open>
  C10 (as amended). When a target column name is supplied and the dataset has no such
  column, \<open>evaluate_model\<close> does not raise on that account: the call ends as the same
  call without a target column ends. If that call raises, this one raises the same
  exception; if that call returns, this one returns the same predictions, records the
  name under \<open>missing_target\<close> in \<open>column_info\<close>, and has neither \<open>metrics\<close> nor
  \<open>actual\<close>.
\<close>

theorem missing_target_is_tolerated:
  assumes named: "t \<noteq> []"
    and absent: "t \<notin> set (columns (h ! new_df))"
  shows
    "(\<forall>e h'. evaluate_model lib h new_df model_path None = (Inl e, h') \<longrightarrow>
         evaluate_model lib h new_df model_path (Some t) = (Inl e, h'))
     \<and> (\<forall>res0 h'. evaluate_model lib h new_df model_path None = (Inr res0, h') \<longrightarrow>
           (\<exists>res ci p. evaluate_model lib h new_df model_path (Some t) = (Inr res, h')
              \<and> map_of res ''predictions'' = Some (RPredictions p)
              \<and> map_of res0 ''predictions'' = Some (RPredictions p)
              \<and> map_of res ''column_info'' = Some (RColumnInfo ci)
              \<and> map_of ci ''missing_target'' = Some (IStr t)
              \<and> map_of res ''metrics'' = None
              \<and> map_of res ''actual'' = None))"
proof (cases "joblib_load lib model_path")
  case (Inl e)
  then have "evaluate_model lib h new_df model_path None = (Inl (Raised e), h)"
    and "evaluate_model lib h new_df model_path (Some t) = (Inl (Raised e), h)"
    by (simp_all add: evaluate_model_def)
  then show ?thesis by simp
next
  case (Inr model)
  let ?h1 = "h @ [h ! new_df]"
  have at: "?h1 ! length h = h ! new_df" by simp
  have sep0: "separate_target ?h1 (length h) None = (None, [], ?h1)"
    by (rule separate_target_none)
  have sep1: "separate_target ?h1 (length h) (Some t) = (None, [(''missing_target'', IStr t)], ?h1)"
  proof -
    have "t \<notin> set (columns (?h1 ! length h))" unfolding at by (rule absent)
    with named show ?thesis by (rule separate_target_absent)
  qed
  note ev0 = evaluate_model_without_target [OF Inr sep0]
  note ev1 = evaluate_model_without_target [OF Inr sep1, unfolded align_columns_cons]
  obtain r0 h3 where al: "align_columns model ?h1 (length h) [] = (r0, h3)"
    by (cases "align_columns model ?h1 (length h) []") auto
  show ?thesis
  proof (cases r0)
    case (Inl e)
    with al ev0 ev1 have "evaluate_model lib h new_df model_path None = (Inl e, h3)"
      and "evaluate_model lib h new_df model_path (Some t) = (Inl e, h3)"
      by simp_all
    then show ?thesis by simp
  next
    case (Inr a)
    obtain df3 ci3 where a: "a = (df3, ci3)" by (cases a) auto
    obtain r f where pr: "predict model (h3 ! df3) = (r, f)"
      by (cases "predict model (h3 ! df3)") auto
    show ?thesis
    proof (cases r)
      case (Inl e)
      with al Inr a pr ev0 ev1
      have "evaluate_model lib h new_df model_path None = (Inl (Raised e), h3[df3 := f])"
        and "evaluate_model lib h new_df model_path (Some t) = (Inl (Raised e), h3[df3 := f])"
        by simp_all
      then show ?thesis by simp
    next
      case (Inr p)
      with al \<open>r0 = Inr a\<close> a pr ev0 ev1
      have e0: "evaluate_model lib h new_df model_path None
                 = (Inr [(''predictions'', RPredictions p), (''column_info'', RColumnInfo ci3)],
                    h3[df3 := f])"
        and e1: "evaluate_model lib h new_df model_path (Some t)
                 = (Inr [(''predictions'', RPredictions p),
                         (''column_info'', RColumnInfo ((''missing_target'', IStr t) # ci3))],
                    h3[df3 := f])"
        by simp_all
      show ?thesis unfolding e0 e1 by simp
    qed
  qed
qed


theorem missing_target_is_tolerated_witness:
  "\<exists>res ci p. evaluate_model (dummy_sklearn (dummy_estimator (Some [''feat1'', ''feat2''])))
          [[(''feat1'', [1, 2, 3]), (''feat2'', [10, 20, 30])]]
          0 ''dummy_classifier.pkl'' (Some ''target'')
        = (Inr res, [[(''feat1'', [1, 2, 3]), (''feat2'', [10, 20, 30])],
                     [(''feat1'', [1, 2, 3]), (''feat2'', [10, 20, 30])],
                     [(''feat1'', [1, 2, 3]), (''feat2'', [10, 20, 30])]])
     \<and> map_of res ''predictions'' = Some (RPredictions p)
     \<and> map_of ([(''predictions'', RPredictions [1, 1, 1]),
                 (''column_info'', RColumnInfo [(''used_columns'', ICols [''feat1'', ''feat2''])])]
                :: (string \<times> (int, int, rat) rval) list)
               ''predictions'' = Some (RPredictions p)
     \<and> map_of res ''column_info'' = Some (RColumnInfo ci)
     \<and> map_of ci ''missing_target'' = Some (IStr ''target'')
     \<and> map_of res ''metrics'' = None
     \<and> map_of res ''actual'' = None"
proof -
  let ?lib = "dummy_sklearn (dummy_estimator (Some [''feat1'', ''feat2'']))"
  let ?F = "[(''feat1'', [1, 2, 3]), (''feat2'', [10, 20, 30 :: int])]"
  have n: "''target'' \<noteq> []" by simp
  have a: "''target'' \<notin> set (columns ([?F] ! 0))" by (simp add: columns_def)
  have e0: "evaluate_model ?lib [?F] 0 ''dummy_classifier.pkl'' None
              = (Inr [(''predictions'', RPredictions [1, 1, 1]),
                      (''column_info'', RColumnInfo [(''used_columns'', ICols [''feat1'', ''feat2''])])],
                 [?F, ?F, ?F])"
    by (simp add: evaluate_model_def dummy_sklearn_def dummy_estimator_def alloc_def
          separate_target_def truthy_def columns_def drop_columns_def align_columns_def
          select_columns_def Let_def)
  show ?thesis
    by (rule missing_target_is_tolerated [OF n a, THEN conjunct2, rule_format, OF e0])
qed

text \<open>
  The claim as first stated fails: a call with a target column that is not in the
  dataset raises when the estimator's \<open>predict\<close> raises.
\<close>

theorem missing_target_may_raise_counterexample:
  "''target'' \<notin> set (columns ([[(''feat1'', [1, 2, 3]), (''feat2'', [10, 20, 30 :: int])]] ! 0))
   \<and> evaluate_model (dummy_sklearn raising_estimator)
         [[(''feat1'', [1, 2, 3]), (''feat2'', [10, 20, 30])]]
         0 ''dummy_classifier.pkl'' (Some ''target'')
       = (Inl (Raised ''X has 2 features, but LinearRegression is expecting 3 features as input.''),
          [[(''feat1'', [1, 2, 3]), (''feat2'', [10, 20, 30])],
           [(''feat1'', [1, 2, 3]), (''feat2'', [10, 20, 30])]])"
  by (simp add: evaluate_model_def dummy_sklearn_def raising_estimator_def alloc_def
        separate_target_def truthy_def columns_def align_columns_def Let_def)

subsection \<open>Column alignment\<close>

lemma select_after_filter:
  assumes "\<forall>c\<in>set f. fst c \<in> set cs \<longrightarrow> P c"
  shows "select_columns cs (filter P f) = select_columns cs f"
proof -
  have "\<And>l. l \<in> set cs \<Longrightarrow> filter (\<lambda>c. fst c = l) (filter P f) = filter (\<lambda>c. fst c = l) f"
    using assms by (auto intro: filter_cong)
  then show ?thesis
    by (simp add: select_columns_def cong: map_cong)
qed

lemma one_column:
  "distinct (map fst f) \<Longrightarrow> l \<in> fst ` set f \<Longrightarrow> \<exists>c. filter (\<lambda>c. fst c = l) f = [c] \<and> fst c = l"
proof (induction f)
  case Nil
  then show ?case by simp
next
  case (Cons a f)
  show ?case
  proof (cases "fst a = l")
    case True
    with Cons.prems have "filter (\<lambda>c. fst c = l) f = []"
      by (auto simp: filter_empty_conv image_iff)
    with True show ?thesis by simp
  next
    case False
    with Cons show ?thesis by auto
  qed
qed

lemma columns_select:
  assumes "distinct (columns f)" and "set cs \<subseteq> set (columns f)"
  shows "columns (select_columns cs f) = cs"
  using assms(2)
proof (induction cs)
  case Nil
  then show ?case by (simp add: select_columns_def columns_def)
next
  case (Cons l cs)
  then have "l \<in> fst ` set f" by (auto simp: columns_def)
  with assms(1) obtain c where "filter (\<lambda>c. fst c = l) f = [c]" "fst c = l"
    using one_column [of f l] by (auto simp: columns_def)
  with Cons show ?case by (simp add: select_columns_def columns_def)
qed

lemma align_columns_missing:
  assumes "training_columns model = Some tcs" and "\<not> set tcs \<subseteq> set (columns (h ! df))"
  shows "\<exists>h'. align_columns model h df ci =
           (Inl (MissingColumns (filter (\<lambda>c. c \<notin> set (columns (h ! df))) (remdups tcs))), h')"
proof -
  have "filter (\<lambda>c. c \<notin> set (columns (h ! df))) (remdups tcs) \<noteq> []"
    using assms(2) by (auto simp: filter_empty_conv)
  with assms(1) show ?thesis
    by (auto simp: align_columns_def Let_def)
qed

lemma align_columns_ok:
  assumes "training_columns model = Some tcs" and "set tcs \<subseteq> set (columns (h ! df))"
    and "df < length h"
  shows "align_columns model h df ci =
           (Inr (length h,
                 AList.update ''used_columns'' (ICols tcs)
                   (if filter (\<lambda>c. c \<notin> set tcs) (remdups (columns (h ! df))) = [] then ci
                    else AList.update ''extra_columns_dropped''
                           (ICols (filter (\<lambda>c. c \<notin> set tcs) (remdups (columns (h ! df))))) ci)),
            h[df := drop_columns (filter (\<lambda>c. c \<notin> set tcs) (remdups (columns (h ! df)))) (h ! df)]
              @ [select_columns tcs (h ! df)])"
proof -
  let ?ex = "filter (\<lambda>c. c \<notin> set tcs) (remdups (columns (h ! df)))"
  have m: "filter (\<lambda>c. c \<notin> set (columns (h ! df))) (remdups tcs) = []"
    using assms(2) by (auto simp: filter_empty_conv)
  have sel: "select_columns tcs (drop_columns ?ex (h ! df)) = select_columns tcs (h ! df)"
    unfolding drop_columns_def by (rule select_after_filter) auto
  have nodrop: "?ex = [] \<Longrightarrow> h[df := drop_columns ?ex (h ! df)] = h"
    by (simp add: drop_columns_def)
  show ?thesis
  proof (cases "?ex = []")
    case True
    with assms(1,3) m nodrop show ?thesis
      by (simp add: align_columns_def alloc_def Let_def)
  next
    case False
    with assms(1,3) m sel show ?thesis
      by (simp add: align_columns_def alloc_def Let_def)
  qed
qed

lemma separate_target_copy:
  "separate_target (h @ [F]) (length h) target_col =
     (if truthy target_col \<and> the target_col \<in> set (columns F)
      then Some (map snd (filter (\<lambda>c. fst c = the target_col) F)) else None,
      if truthy target_col \<and> the target_col \<notin> set (columns F)
      then [(''missing_target'', IStr (the target_col))] else [],
      h @ [filter (\<lambda>c. \<not> (truthy target_col \<and> fst c = the target_col)) F])"
proof -
  have "the target_col \<notin> set (columns F) \<Longrightarrow> filter (\<lambda>c. fst c \<noteq> the target_col) F = F"
    by (auto simp: columns_def filter_id_conv image_iff)
  then show ?thesis
    by (auto simp: separate_target_def drop_columns_def)
qed

lemma columns_filter:
  "columns (filter (\<lambda>c. P (fst c)) F) = filter P (columns F)"
  by (simp add: columns_def filter_map comp_def)

lemma evaluate_model_missing:
  assumes load: "joblib_load lib model_path = Inr model"
    and tcs: "training_columns model = Some tcs"
    and cols: "cols = filter (\<lambda>c. \<not> (truthy target_col \<and> c = the target_col)) (columns (h ! new_df))"
    and miss: "\<not> set tcs \<subseteq> set cols"
  shows "\<exists>h'. evaluate_model lib h new_df model_path target_col
              = (Inl (MissingColumns (filter (\<lambda>c. c \<notin> set cols) (remdups tcs))), h')"
proof -
  let ?F = "h ! new_df"
  define F' where "F' = filter (\<lambda>c. \<not> (truthy target_col \<and> fst c = the target_col)) ?F"
  define y where "y = (if truthy target_col \<and> the target_col \<in> set (columns ?F)
            then Some (map snd (filter (\<lambda>c. fst c = the target_col) ?F)) else None)"
  define ci where "ci = (if truthy target_col \<and> the target_col \<notin> set (columns ?F)
             then [(''missing_target'', IStr (the target_col))] else [])"
  define h2 where "h2 = h @ [F']"
  have sep: "separate_target (h @ [?F]) (length h) target_col = (y, ci, h2)"
    unfolding y_def ci_def h2_def F'_def by (rule separate_target_copy)
  have at: "h2 ! length h = F'" by (simp add: h2_def)
  have cF': "columns F' = cols"
    unfolding cols F'_def
    using columns_filter [of "\<lambda>l. \<not> (truthy target_col \<and> l = the target_col)" ?F]
    by simp
  have "\<not> set tcs \<subseteq> set (columns (h2 ! length h))"
    unfolding at cF' by (rule miss)
  from align_columns_missing [OF tcs this, of ci, unfolded at cF']
  obtain h' where al: "align_columns model h2 (length h) ci
        = (Inl (MissingColumns (filter (\<lambda>c. c \<notin> set cols) (remdups tcs))), h')"
    by (rule exE)
  have "evaluate_model lib h new_df model_path target_col
          = (Inl (MissingColumns (filter (\<lambda>c. c \<notin> set cols) (remdups tcs))), h')"
    using load sep al by (simp add: evaluate_model_def alloc_def)
  then show ?thesis by (rule exI)
qed

lemma column_info_entries:
  assumes ci: "ci = (if truthy target_col \<and> the target_col \<notin> set (columns F)
                   then [(''missing_target'', IStr (the target_col))] else [])"
    and ex: "ex = filter (\<lambda>c. c \<notin> set tcs) (remdups cols)"
    and ci3: "ci3 = AList.update ''used_columns'' (ICols tcs)
                   (if ex = [] then ci else AList.update ''extra_columns_dropped'' (ICols ex) ci)"
  shows "map_of ci3 ''used_columns'' = Some (ICols tcs)"
    and "if set cols \<subseteq> set tcs then map_of ci3 ''extra_columns_dropped'' = None
         else \<exists>ex. map_of ci3 ''extra_columns_dropped'' = Some (ICols ex)
                   \<and> set ex = set cols - set tcs"
proof -
  have ex_set: "set ex = set cols - set tcs" by (auto simp: ex)
  have ex_nil: "(ex = []) = (set cols \<subseteq> set tcs)" by (auto simp: ex filter_empty_conv)
  show "map_of ci3 ''used_columns'' = Some (ICols tcs)"
    by (simp add: ci3 update_conv')
  show "if set cols \<subseteq> set tcs then map_of ci3 ''extra_columns_dropped'' = None
         else \<exists>ex. map_of ci3 ''extra_columns_dropped'' = Some (ICols ex)
                   \<and> set ex = set cols - set tcs"
  proof (cases "set cols \<subseteq> set tcs")
    case True
    with ex_nil have "ex = []" by simp
    with True show ?thesis by (simp add: ci3 ci update_conv')
  next
    case False
    with ex_nil have "ex \<noteq> []" by simp
    then have "map_of ci3 ''extra_columns_dropped'' = Some (ICols ex)"
      by (simp add: ci3 update_conv')
    with ex_set have "\<exists>ex. map_of ci3 ''extra_columns_dropped'' = Some (ICols ex)
                   \<and> set ex = set cols - set tcs"
      by (intro exI [where x = ex] conjI)
    with False show ?thesis by (simp only: if_False)
  qed
qed

lemma set_columns_select:
  "set (columns (select_columns cs f)) = set cs \<inter> set (columns f)"
  by (auto simp: select_columns_def columns_def)

lemma tolist_single:
  "length ys = 1 \<Longrightarrow> \<exists>a. tolist ys = Inr a"
  by (cases ys) (auto simp: tolist_def split: list.splits)

lemma tolist_many:
  "1 < length ys \<Longrightarrow> tolist ys = Inl (AttributeError ''tolist'')"
  by (cases ys) (auto simp: tolist_def split: list.splits)

lemma evaluate_model_after_alignment:
  assumes load: "joblib_load lib model_path = Inr model"
    and tcs: "training_columns model = Some tcs"
    and cols: "cols = filter (\<lambda>c. \<not> (truthy target_col \<and> c = the target_col)) (columns (h ! new_df))"
    and sub: "set tcs \<subseteq> set cols"
    and ci: "ci = (if truthy target_col \<and> the target_col \<notin> set (columns (h ! new_df))
                   then [(''missing_target'', IStr (the target_col))] else [])"
    and ex: "ex = filter (\<lambda>c. c \<notin> set tcs) (remdups cols)"
    and ci3: "ci3 = AList.update ''used_columns'' (ICols tcs)
                   (if ex = [] then ci else AList.update ''extra_columns_dropped'' (ICols ex) ci)"
    and y: "y = (if truthy target_col \<and> the target_col \<in> set (columns (h ! new_df))
                 then Some (map snd (filter (\<lambda>c. fst c = the target_col) (h ! new_df))) else None)"
  shows "\<exists>h3 df3. evaluate_model lib h new_df model_path target_col =
     (case predict model (select_columns tcs (h ! new_df)) of
        (Inl e, f) \<Rightarrow> (Inl (Raised e), h3[df3 := f])
      | (Inr p, f) \<Rightarrow>
          (case y of
             None \<Rightarrow>
               (Inr [(''predictions'', RPredictions p), (''column_info'', RColumnInfo ci3)],
                h3[df3 := f])
           | Some ys \<Rightarrow>
               (case tolist ys of
                  Inl e \<Rightarrow> (Inl e, h3[df3 := f])
                | Inr actual \<Rightarrow>
                    (Inr [(''predictions'', RPredictions p), (''column_info'', RColumnInfo ci3),
                          (''metrics'', RMetrics (compute_metrics lib (kind model) ys p)),
                          (''actual'', RActual actual)],
                     h3[df3 := f]))))"
proof -
  let ?F = "h ! new_df"
  define F' where "F' = filter (\<lambda>c. \<not> (truthy target_col \<and> fst c = the target_col)) ?F"
  define h2 where "h2 = h @ [F']"
  define h3 where "h3 = h2[length h := drop_columns ex F'] @ [select_columns tcs F']"
  have sep: "separate_target (h @ [?F]) (length h) target_col = (y, ci, h2)"
    unfolding y ci h2_def F'_def by (rule separate_target_copy)
  have at: "h2 ! length h = F'" by (simp add: h2_def)
  have len2: "length h2 = Suc (length h)" by (simp add: h2_def)
  have cF': "columns F' = cols"
    unfolding cols F'_def
    using columns_filter [of "\<lambda>l. \<not> (truthy target_col \<and> l = the target_col)" ?F]
    by simp
  have sub': "set tcs \<subseteq> set (columns (h2 ! length h))"
    unfolding at cF' by (rule sub)
  have lt: "length h < length h2" by (simp add: len2)
  have al: "align_columns model h2 (length h) ci = (Inr (Suc (length h), ci3), h3)"
    using align_columns_ok [OF tcs sub' lt, of ci, unfolded at cF' len2]
    by (simp only: ex ci3 h3_def)
  have "\<forall>c\<in>set ?F. fst c \<in> set tcs \<longrightarrow> \<not> (truthy target_col \<and> fst c = the target_col)"
    using sub unfolding cols by auto
  then have sel: "select_columns tcs F' = select_columns tcs ?F"
    unfolding F'_def by (rule select_after_filter)
  have at3: "h3 ! Suc (length h) = select_columns tcs ?F"
    by (simp add: h3_def nth_append sel len2)
  have "evaluate_model lib h new_df model_path target_col =
     (case predict model (select_columns tcs ?F) of
        (Inl e, f) \<Rightarrow> (Inl (Raised e), h3[Suc (length h) := f])
      | (Inr p, f) \<Rightarrow>
          (case y of
             None \<Rightarrow>
               (Inr [(''predictions'', RPredictions p), (''column_info'', RColumnInfo ci3)],
                h3[Suc (length h) := f])
           | Some ys \<Rightarrow>
               (case tolist ys of
                  Inl e \<Rightarrow> (Inl e, h3[Suc (length h) := f])
                | Inr actual \<Rightarrow>
                    (Inr [(''predictions'', RPredictions p), (''column_info'', RColumnInfo ci3),
                          (''metrics'', RMetrics (compute_metrics lib (kind model) ys p)),
                          (''actual'', RActual actual)],
                     h3[Suc (length h) := f]))))"
    using load sep al at3
    by (simp add: evaluate_model_def alloc_def Let_def
          split: prod.splits sum.splits option.splits)
  then show ?thesis by (intro exI)
qed


lemma evaluate_model_predict_raises:
  assumes load: "joblib_load lib model_path = Inr model"
    and tcs: "training_columns model = Some tcs"
    and cols: "cols = filter (\<lambda>c. \<not> (truthy target_col \<and> c = the target_col)) (columns (h ! new_df))"
    and sub: "set tcs \<subseteq> set cols"
    and pr: "predict model (select_columns tcs (h ! new_df)) = (Inl e, f)"
  shows "\<exists>h'. evaluate_model lib h new_df model_path target_col = (Inl (Raised e), h')"
proof -
  from evaluate_model_after_alignment [OF load tcs cols sub refl refl refl refl]
  obtain h3 df3 where "evaluate_model lib h new_df model_path target_col
                         = (Inl (Raised e), h3[df3 := f])"
    unfolding pr by auto
  then show ?thesis by (rule exI)
qed

lemma evaluate_model_target_repeated:
  assumes load: "joblib_load lib model_path = Inr model"
    and tcs: "training_columns model = Some tcs"
    and cols: "cols = filter (\<lambda>c. \<not> (truthy target_col \<and> c = the target_col)) (columns (h ! new_df))"
    and sub: "set tcs \<subseteq> set cols"
    and pr: "predict model (select_columns tcs (h ! new_df)) = (Inr p, f)"
    and rep: "truthy target_col \<and> 1 < length (filter (\<lambda>c. fst c = the target_col) (h ! new_df))"
  shows "\<exists>h'. evaluate_model lib h new_df model_path target_col
               = (Inl (AttributeError ''tolist''), h')"
proof -
  let ?ys = "map snd (filter (\<lambda>c. fst c = the target_col) (h ! new_df))"
  from rep have "filter (\<lambda>c. fst c = the target_col) (h ! new_df) \<noteq> []" by auto
  then have "\<exists>c\<in>set (h ! new_df). fst c = the target_col" by (auto simp: filter_empty_conv)
  then have pres: "the target_col \<in> set (columns (h ! new_df))" by (force simp: columns_def)
  from rep have "1 < length ?ys" by simp
  then have tl: "tolist ?ys = Inl (AttributeError ''tolist'')" by (rule tolist_many)
  from rep pres have y: "Some ?ys = (if truthy target_col \<and> the target_col \<in> set (columns (h ! new_df))
                 then Some ?ys else None)" by simp
  from evaluate_model_after_alignment [OF load tcs cols sub refl refl refl y]
  obtain h3 df3 where "evaluate_model lib h new_df model_path target_col
                         = (Inl (AttributeError ''tolist''), h3[df3 := f])"
    unfolding pr by (auto simp: tl)
  then show ?thesis by (rule exI)
qed

lemma evaluate_model_succeeds:
  assumes load: "joblib_load lib model_path = Inr model"
    and tcs: "training_columns model = Some tcs"
    and cols: "cols = filter (\<lambda>c. \<not> (truthy target_col \<and> c = the target_col)) (columns (h ! new_df))"
    and sub: "set tcs \<subseteq> set cols"
    and pr: "predict model (select_columns tcs (h ! new_df)) = (Inr p, f)"
    and once: "\<not> (truthy target_col \<and> 1 < length (filter (\<lambda>c. fst c = the target_col) (h ! new_df)))"
    and ci: "ci = (if truthy target_col \<and> the target_col \<notin> set (columns (h ! new_df))
                   then [(''missing_target'', IStr (the target_col))] else [])"
    and ex: "ex = filter (\<lambda>c. c \<notin> set tcs) (remdups cols)"
    and ci3: "ci3 = AList.update ''used_columns'' (ICols tcs)
                   (if ex = [] then ci else AList.update ''extra_columns_dropped'' (ICols ex) ci)"
  shows "\<exists>res h'. evaluate_model lib h new_df model_path target_col = (Inr res, h')
           \<and> map_of res ''predictions'' = Some (RPredictions p)
           \<and> map_of res ''column_info'' = Some (RColumnInfo ci3)"
proof (cases "truthy target_col \<and> the target_col \<in> set (columns (h ! new_df))")
  case False
  then have y: "None = (if truthy target_col \<and> the target_col \<in> set (columns (h ! new_df))
                 then Some (map snd (filter (\<lambda>c. fst c = the target_col) (h ! new_df))) else None)"
    by simp
  from evaluate_model_after_alignment [OF load tcs cols sub ci ex ci3 y]
  obtain h3 df3 where "evaluate_model lib h new_df model_path target_col
        = (Inr [(''predictions'', RPredictions p), (''column_info'', RColumnInfo ci3)], h3[df3 := f])"
    unfolding pr by auto
  then show ?thesis by simp
next
  case True
  let ?ys = "map snd (filter (\<lambda>c. fst c = the target_col) (h ! new_df))"
  from True have "\<exists>c\<in>set (h ! new_df). fst c = the target_col" by (force simp: columns_def)
  then have "filter (\<lambda>c. fst c = the target_col) (h ! new_df) \<noteq> []"
    by (auto simp: filter_empty_conv)
  then have "0 < length (filter (\<lambda>c. fst c = the target_col) (h ! new_df))" by simp
  moreover from once True have "\<not> 1 < length (filter (\<lambda>c. fst c = the target_col) (h ! new_df))"
    by simp
  ultimately have "length (filter (\<lambda>c. fst c = the target_col) (h ! new_df)) = 1" by arith
  then have "length ?ys = 1" by simp
  then obtain actual where tl: "tolist ?ys = Inr actual" using tolist_single by blast
  from True have y: "Some ?ys = (if truthy target_col \<and> the target_col \<in> set (columns (h ! new_df))
                 then Some ?ys else None)" by simp
  from evaluate_model_after_alignment [OF load tcs cols sub ci ex ci3 y]
  obtain h3 df3 where "evaluate_model lib h new_df model_path target_col
        = (Inr [(''predictions'', RPredictions p), (''column_info'', RColumnInfo ci3),
                (''metrics'', RMetrics (compute_metrics lib (kind model) ?ys p)),
                (''actual'', RActual actual)], h3[df3 := f])"
    unfolding pr by (auto simp: tl)
  then show ?thesis by simp
qed

text \<open>
  C5 (as amended). Take a loaded model artifact that carries a stored training-column list,
  and let the current columns be the dataset's columns without the target column, when a
  target column name is supplied. If some training column is not among the current columns,
  \<open>evaluate_model\<close> raises the error that names exactly the missing training columns, whether
  or not the dataset has extra columns, and nothing is imputed. Otherwise the estimator is
  given the training columns only (in training order when the dataset's labels are distinct):
  an exception of \<open>predict\<close> is raised again; a supplied target label that the dataset repeats
  ends in an \<open>AttributeError\<close>; in every other case the call returns the predictions and a
  \<open>column_info\<close> with the training list under \<open>used_columns\<close> and, exactly when some current
  column is not a training column, those columns under \<open>extra_columns_dropped\<close>. The target
  column is never reported there.
\<close>

theorem column_alignment:
  assumes load: "joblib_load lib model_path = Inr model"
    and tcs: "training_columns model = Some tcs"
    and cols: "cols = filter (\<lambda>c. \<not> (truthy target_col \<and> c = the target_col)) (columns (h ! new_df))"
  shows
    "(\<not> set tcs \<subseteq> set cols \<longrightarrow>
        (\<exists>ms h'. evaluate_model lib h new_df model_path target_col = (Inl (MissingColumns ms), h')
            \<and> ms \<noteq> [] \<and> set ms = set tcs - set cols))
     \<and> (set tcs \<subseteq> set cols \<longrightarrow>
          set (columns (select_columns tcs (h ! new_df))) = set tcs
          \<and> (distinct (columns (h ! new_df)) \<longrightarrow> columns (select_columns tcs (h ! new_df)) = tcs)
          \<and> (\<forall>e f. predict model (select_columns tcs (h ! new_df)) = (Inl e, f) \<longrightarrow>
                (\<exists>h'. evaluate_model lib h new_df model_path target_col = (Inl (Raised e), h')))
          \<and> (\<forall>p f. predict model (select_columns tcs (h ! new_df)) = (Inr p, f) \<longrightarrow>
                (if truthy target_col
                    \<and> 1 < length (filter (\<lambda>c. fst c = the target_col) (h ! new_df))
                 then \<exists>h'. evaluate_model lib h new_df model_path target_col
                             = (Inl (AttributeError ''tolist''), h')
                 else \<exists>res ci h'. evaluate_model lib h new_df model_path target_col = (Inr res, h')
                        \<and> map_of res ''predictions'' = Some (RPredictions p)
                        \<and> map_of res ''column_info'' = Some (RColumnInfo ci)
                        \<and> map_of ci ''used_columns'' = Some (ICols tcs)
                        \<and> (if set cols \<subseteq> set tcs
                            then map_of ci ''extra_columns_dropped'' = None
                            else \<exists>ex. map_of ci ''extra_columns_dropped'' = Some (ICols ex)
                                      \<and> set ex = set cols - set tcs))))"
proof (rule conjI; rule impI)
  assume miss: "\<not> set tcs \<subseteq> set cols"
  let ?ms = "filter (\<lambda>c. c \<notin> set cols) (remdups tcs)"
  from evaluate_model_missing [OF load tcs cols miss]
  obtain h' where ev: "evaluate_model lib h new_df model_path target_col
              = (Inl (MissingColumns ?ms), h')"
    by (elim exE)
  have ne: "?ms \<noteq> []" using miss by (auto simp: filter_empty_conv)
  have ms: "set ?ms = set tcs - set cols" by auto
  show "\<exists>ms h'. evaluate_model lib h new_df model_path target_col = (Inl (MissingColumns ms), h')
              \<and> ms \<noteq> [] \<and> set ms = set tcs - set cols"
  proof (intro exI conjI)
    show "evaluate_model lib h new_df model_path target_col = (Inl (MissingColumns ?ms), h')"
      by (rule ev)
    show "?ms \<noteq> []" by (rule ne)
    show "set ?ms = set tcs - set cols" by (rule ms)
  qed
next
  assume sub: "set tcs \<subseteq> set cols"
  define ci where "ci = (if truthy target_col \<and> the target_col \<notin> set (columns (h ! new_df))
                   then [(''missing_target'', IStr (the target_col))] else [])"
  define ex where "ex = filter (\<lambda>c. c \<notin> set tcs) (remdups cols)"
  define ci3 where "ci3 = AList.update ''used_columns'' (ICols tcs)
                   (if ex = [] then ci else AList.update ''extra_columns_dropped'' (ICols ex) ci)"
  note info = column_info_entries [OF ci_def ex_def ci3_def]
  have sub0: "set tcs \<subseteq> set (columns (h ! new_df))" using sub unfolding cols by auto
  have setX: "set (columns (select_columns tcs (h ! new_df))) = set tcs"
    using sub0 by (auto simp: set_columns_select)
  have ordX: "columns (select_columns tcs (h ! new_df)) = tcs" if "distinct (columns (h ! new_df))"
    using that sub0 by (rule columns_select)
  have raises: "\<exists>h'. evaluate_model lib h new_df model_path target_col = (Inl (Raised e), h')"
    if "predict model (select_columns tcs (h ! new_df)) = (Inl e, f)" for e f
    using load tcs cols sub that by (rule evaluate_model_predict_raises)
  have returns: "if truthy target_col
                    \<and> 1 < length (filter (\<lambda>c. fst c = the target_col) (h ! new_df))
                 then \<exists>h'. evaluate_model lib h new_df model_path target_col
                             = (Inl (AttributeError ''tolist''), h')
                 else \<exists>res ci h'. evaluate_model lib h new_df model_path target_col = (Inr res, h')
                        \<and> map_of res ''predictions'' = Some (RPredictions p)
                        \<and> map_of res ''column_info'' = Some (RColumnInfo ci)
                        \<and> map_of ci ''used_columns'' = Some (ICols tcs)
                        \<and> (if set cols \<subseteq> set tcs
                            then map_of ci ''extra_columns_dropped'' = None
                            else \<exists>ex. map_of ci ''extra_columns_dropped'' = Some (ICols ex)
                                      \<and> set ex = set cols - set tcs)"
    if pr: "predict model (select_columns tcs (h ! new_df)) = (Inr p, f)" for p f
  proof (cases "truthy target_col
                 \<and> 1 < length (filter (\<lambda>c. fst c = the target_col) (h ! new_df))")
    case True
    from evaluate_model_target_repeated [OF load tcs cols sub pr True]
    have "\<exists>h'. evaluate_model lib h new_df model_path target_col
                 = (Inl (AttributeError ''tolist''), h')" .
    then show ?thesis by (simp only: if_P [OF True])
  next
    case False
    from evaluate_model_succeeds [OF load tcs cols sub pr False ci_def ex_def ci3_def]
    obtain res h' where
      r: "evaluate_model lib h new_df model_path target_col = (Inr res, h')
           \<and> map_of res ''predictions'' = Some (RPredictions p)
           \<and> map_of res ''column_info'' = Some (RColumnInfo ci3)"
      by (elim exE)
    have "\<exists>res ci h'. evaluate_model lib h new_df model_path target_col = (Inr res, h')
                        \<and> map_of res ''predictions'' = Some (RPredictions p)
                        \<and> map_of res ''column_info'' = Some (RColumnInfo ci)
                        \<and> map_of ci ''used_columns'' = Some (ICols tcs)
                        \<and> (if set cols \<subseteq> set tcs
                            then map_of ci ''extra_columns_dropped'' = None
                            else \<exists>ex. map_of ci ''extra_columns_dropped'' = Some (ICols ex)
                                      \<and> set ex = set cols - set tcs)"
    proof (rule exI [where x = res], rule exI [where x = ci3], rule exI [where x = h'],
           intro conjI)
      from r show "evaluate_model lib h new_df model_path target_col = (Inr res, h')"
        by (rule conjunct1)
      from r show "map_of res ''predictions'' = Some (RPredictions p)"
        by (rule conjunct1 [OF conjunct2])
      from r show "map_of res ''column_info'' = Some (RColumnInfo ci3)"
        by (rule conjunct2 [OF conjunct2])
      show "map_of ci3 ''used_columns'' = Some (ICols tcs)" by (rule info(1))
      show "if set cols \<subseteq> set tcs then map_of ci3 ''extra_columns_dropped'' = None
            else \<exists>ex. map_of ci3 ''extra_columns_dropped'' = Some (ICols ex)
                      \<and> set ex = set cols - set tcs"
        by (rule info(2))
    qed
    then show ?thesis by (simp only: if_not_P [OF False])
  qed
  show "set (columns (select_columns tcs (h ! new_df))) = set tcs
          \<and> (distinct (columns (h ! new_df)) \<longrightarrow> columns (select_columns tcs (h ! new_df)) = tcs)
          \<and> (\<forall>e f. predict model (select_columns tcs (h ! new_df)) = (Inl e, f) \<longrightarrow>
                (\<exists>h'. evaluate_model lib h new_df model_path target_col = (Inl (Raised e), h')))
          \<and> (\<forall>p f. predict model (select_columns tcs (h ! new_df)) = (Inr p, f) \<longrightarrow>
                (if truthy target_col
                    \<and> 1 < length (filter (\<lambda>c. fst c = the target_col) (h ! new_df))
                 then \<exists>h'. evaluate_model lib h new_df model_path target_col
                             = (Inl (AttributeError ''tolist''), h')
                 else \<exists>res ci h'. evaluate_model lib h new_df model_path target_col = (Inr res, h')
                        \<and> map_of res ''predictions'' = Some (RPredictions p)
                        \<and> map_of res ''column_info'' = Some (RColumnInfo ci)
                        \<and> map_of ci ''used_columns'' = Some (ICols tcs)
                        \<and> (if set cols \<subseteq> set tcs
                            then map_of ci ''extra_columns_dropped'' = None
                            else \<exists>ex. map_of ci ''extra_columns_dropped'' = Some (ICols ex)
                                      \<and> set ex = set cols - set tcs)))"
  proof (rule conjI, rule setX, rule conjI, rule impI, erule ordX, rule conjI)
    show "\<forall>e f. predict model (select_columns tcs (h ! new_df)) = (Inl e, f) \<longrightarrow>
                (\<exists>h'. evaluate_model lib h new_df model_path target_col = (Inl (Raised e), h'))"
      using raises by (intro allI impI)
    show "\<forall>p f. predict model (select_columns tcs (h ! new_df)) = (Inr p, f) \<longrightarrow>
                (if truthy target_col
                    \<and> 1 < length (filter (\<lambda>c. fst c = the target_col) (h ! new_df))
                 then \<exists>h'. evaluate_model lib h new_df model_path target_col
                             = (Inl (AttributeError ''tolist''), h')
                 else \<exists>res ci h'. evaluate_model lib h new_df model_path target_col = (Inr res, h')
                        \<and> map_of res ''predictions'' = Some (RPredictions p)
                        \<and> map_of res ''column_info'' = Some (RColumnInfo ci)
                        \<and> map_of ci ''used_columns'' = Some (ICols tcs)
                        \<and> (if set cols \<subseteq> set tcs
                            then map_of ci ''extra_columns_dropped'' = None
                            else \<exists>ex. map_of ci ''extra_columns_dropped'' = Some (ICols ex)
                                      \<and> set ex = set cols - set tcs))"
      using returns by (intro allI impI)
  qed
qed

theorem column_alignment_witness:
  "(\<exists>res ci h'. evaluate_model (dummy_sklearn (dummy_estimator (Some [''a'', ''b''])))
                    [[(''a'', [1, 2]), (''b'', [3, 4]), (''c'', [5, 6])]] 0 ''dummy_classifier.pkl'' None
                  = (Inr res, h')
       \<and> map_of res ''predictions'' = Some (RPredictions [1, 1])
       \<and> map_of res ''column_info'' = Some (RColumnInfo ci)
       \<and> map_of ci ''used_columns'' = Some (ICols [''a'', ''b''])
       \<and> (\<exists>ex. map_of ci ''extra_columns_dropped'' = Some (ICols ex) \<and> set ex = {''c''}))
   \<and> (\<exists>ms h'. evaluate_model (dummy_sklearn (dummy_estimator (Some [''a'', ''b''])))
                    [[(''a'', [1, 2])]] 0 ''dummy_classifier.pkl'' None
                  = (Inl (MissingColumns ms), h')
       \<and> set ms = {''b''})"
proof (rule conjI)
  let ?m = "dummy_estimator (Some [''a'', ''b''])"
  let ?lib = "dummy_sklearn ?m"
  let ?F = "[(''a'', [1, 2]), (''b'', [3, 4]), (''c'', [5, 6 :: int])]"
  have l: "joblib_load ?lib ''dummy_classifier.pkl'' = Inr ?m" by (simp add: dummy_sklearn_def)
  have t: "training_columns ?m = Some [''a'', ''b'']" by (simp add: dummy_estimator_def)
  have c: "[''a'', ''b'', ''c''] = filter (\<lambda>c. \<not> (truthy None \<and> c = the None)) (columns ([?F] ! 0))"
    by (simp add: columns_def truthy_def)
  have s: "set [''a'', ''b''] \<subseteq> set [''a'', ''b'', ''c'']" by simp
  have ns: "\<not> set [''a'', ''b'', ''c''] \<subseteq> set [''a'', ''b'']" by simp
  have df: "set [''a'', ''b'', ''c''] - set [''a'', ''b''] = {''c''}" by auto
  have nt: "\<not> (truthy None \<and> 1 < length (filter (\<lambda>c. fst c = the None) ([?F] ! 0)))"
    by (simp add: truthy_def)
  have p: "predict ?m (select_columns [''a'', ''b''] ([?F] ! 0))
             = (Inr [1, 1], [(''a'', [1, 2]), (''b'', [3, 4])])"
    by (simp add: dummy_estimator_def select_columns_def)
  note B = column_alignment [OF l t c, THEN conjunct2, THEN mp, OF s]
  note R = B [THEN conjunct2, THEN conjunct2, THEN conjunct2, THEN spec, THEN spec, THEN mp, OF p]
  from R have "\<exists>res ci h'. evaluate_model ?lib [?F] 0 ''dummy_classifier.pkl'' None = (Inr res, h')
       \<and> map_of res ''predictions'' = Some (RPredictions [1, 1])
       \<and> map_of res ''column_info'' = Some (RColumnInfo ci)
       \<and> map_of ci ''used_columns'' = Some (ICols [''a'', ''b''])
       \<and> (if set [''a'', ''b'', ''c''] \<subseteq> set [''a'', ''b'']
          then map_of ci ''extra_columns_dropped'' = None
          else \<exists>ex. map_of ci ''extra_columns_dropped'' = Some (ICols ex)
                    \<and> set ex = set [''a'', ''b'', ''c''] - set [''a'', ''b''])"
    by (simp only: if_not_P [OF nt])
  then obtain res ci h' where
    r: "evaluate_model ?lib [?F] 0 ''dummy_classifier.pkl'' None = (Inr res, h')"
       "map_of res ''predictions'' = Some (RPredictions [1, 1])"
       "map_of res ''column_info'' = Some (RColumnInfo ci)"
       "map_of ci ''used_columns'' = Some (ICols [''a'', ''b''])"
       "if set [''a'', ''b'', ''c''] \<subseteq> set [''a'', ''b''] then map_of ci ''extra_columns_dropped'' = None
        else \<exists>ex. map_of ci ''extra_columns_dropped'' = Some (ICols ex)
                  \<and> set ex = set [''a'', ''b'', ''c''] - set [''a'', ''b'']"
    by (elim exE conjE)
  from r(5) have "\<exists>ex. map_of ci ''extra_columns_dropped'' = Some (ICols ex)
                  \<and> set ex = set [''a'', ''b'', ''c''] - set [''a'', ''b'']"
    by (simp only: if_not_P [OF ns])
  then have "\<exists>ex. map_of ci ''extra_columns_dropped'' = Some (ICols ex) \<and> set ex = {''c''}"
    by (simp only: df)
  then obtain ex where e: "map_of ci ''extra_columns_dropped'' = Some (ICols ex)" "set ex = {''c''}"
    by (elim exE conjE)
  show "\<exists>res ci h'. evaluate_model ?lib [?F] 0 ''dummy_classifier.pkl'' None = (Inr res, h')
       \<and> map_of res ''predictions'' = Some (RPredictions [1, 1])
       \<and> map_of res ''column_info'' = Some (RColumnInfo ci)
       \<and> map_of ci ''used_columns'' = Some (ICols [''a'', ''b''])
       \<and> (\<exists>ex. map_of ci ''extra_columns_dropped'' = Some (ICols ex) \<and> set ex = {''c''})"
  proof (intro exI conjI)
    show "evaluate_model ?lib [?F] 0 ''dummy_classifier.pkl'' None = (Inr res, h')" by (rule r(1))
    show "map_of res ''predictions'' = Some (RPredictions [1, 1])" by (rule r(2))
    show "map_of res ''column_info'' = Some (RColumnInfo ci)" by (rule r(3))
    show "map_of ci ''used_columns'' = Some (ICols [''a'', ''b''])" by (rule r(4))
    show "map_of ci ''extra_columns_dropped'' = Some (ICols ex)" by (rule e(1))
    show "set ex = {''c''}" by (rule e(2))
  qed
next
  let ?m = "dummy_estimator (Some [''a'', ''b''])"
  let ?lib = "dummy_sklearn ?m"
  let ?F = "[(''a'', [1, 2 :: int])]"
  have l: "joblib_load ?lib ''dummy_classifier.pkl'' = Inr ?m" by (simp add: dummy_sklearn_def)
  have t: "training_columns ?m = Some [''a'', ''b'']" by (simp add: dummy_estimator_def)
  have c: "[''a''] = filter (\<lambda>c. \<not> (truthy None \<and> c = the None)) (columns ([?F] ! 0))"
    by (simp add: columns_def truthy_def)
  have ns: "\<not> set [''a'', ''b''] \<subseteq> set [''a'']" by simp
  have df: "set [''a'', ''b''] - set [''a''] = {''b''}" by auto
  from column_alignment [OF l t c, THEN conjunct1, THEN mp, OF ns]
  obtain ms h' where
    r: "evaluate_model ?lib [?F] 0 ''dummy_classifier.pkl'' None = (Inl (MissingColumns ms), h')"
       "ms \<noteq> []"
       "set ms = set [''a'', ''b''] - set [''a'']"
    by (elim exE conjE)
  from r(3) have m: "set ms = {''b''}" by (simp only: df)
  show "\<exists>ms h'. evaluate_model ?lib [?F] 0 ''dummy_classifier.pkl'' None
                  = (Inl (MissingColumns ms), h') \<and> set ms = {''b''}"
  proof (intro exI conjI)
    show "evaluate_model ?lib [?F] 0 ''dummy_classifier.pkl'' None = (Inl (MissingColumns ms), h')"
      by (rule r(1))
    show "set ms = {''b''}" by (rule m)
  qed
qed

theorem extras_without_success_counterexample:
  "fst (evaluate_model (dummy_sklearn (dummy_estimator (Some [''a'', ''b''])))
          [[(''a'', [1, 2]), (''b'', [3, 4]), (''c'', [5, 6])]] 0 ''dummy_classifier.pkl'' (Some ''c''))
     = Inr [(''predictions'', RPredictions [1, 1]),
            (''column_info'', RColumnInfo [(''used_columns'', ICols [''a'', ''b''])]),
            (''metrics'', RMetrics [(''Accuracy'', 1), (''F1'', 1)]),
            (''actual'', RActual [5, 6])]
   \<and> fst (evaluate_model (dummy_sklearn (raising_estimator\<lparr>training_columns := Some [''a'', ''b'']\<rparr>))
            [[(''a'', [1, 2]), (''b'', [3, 4]), (''c'', [5, 6])]] 0 ''dummy_classifier.pkl'' None)
     = Inl (Raised ''X has 2 features, but LinearRegression is expecting 3 features as input.'')
   \<and> fst (evaluate_model (dummy_sklearn (dummy_estimator (Some [''a'', ''b''])))
            [[(''a'', [1, 2]), (''c'', [5, 6])]] 0 ''dummy_classifier.pkl'' None)
     = Inl (MissingColumns [''b''])"
  by (simp add: evaluate_model_def dummy_sklearn_def dummy_estimator_def raising_estimator_def
        alloc_def separate_target_def truthy_def columns_def drop_columns_def align_columns_def
        select_columns_def compute_metrics_def tolist_def Let_def)

end
